theory Spec2Isabelle
  imports Complex_Main
begin

section \<open>The mock API client of the banking demo (js/apiClient.js)\<close>

text \<open>
  The in-memory mock behind \<^verbatim>\<open>apiRequest\<close> is embedded as pure functions on an
  explicit state. Conventions of the embedding:
  \<^item> \<^verbatim>\<open>mockState\<close> is a record that every operation takes and returns; an operation
    returns its outcome together with the state it leaves behind, because
    \<^verbatim>\<open>verifyOtp\<close> mutates the attempt counter before it throws;
  \<^item> \<^verbatim>\<open>handleFailure\<close> always throws the normalised error, so a call to it is the
    error code as \<open>Inl\<close>; its toast and modal are not part of the state;
  \<^item> the two \<^verbatim>\<open>Map\<close>s are partial functions; the arrays are lists, and an object found
    in the accounts array and then mutated is an index into that list;
  \<^item> \<^verbatim>\<open>Date.now()\<close> is an \<open>int\<close> of milliseconds passed in by the caller, and the
    results of \<^verbatim>\<open>Math.random()\<close> are passed in as well;
  \<^item> request payloads are typed: identifiers, codes and notes are strings, the amount
    is a number. A missing field is the empty string or the number zero, which the
    \<^verbatim>\<open>!field\<close> tests of the source reject in the same way as \<^verbatim>\<open>undefined\<close>;
  \<^item> a number is a rational. The numbers of the state are IEEE 754 doubles, and the two
    arithmetic results that \<^verbatim>\<open>confirm\<close> stores, the debited and the credited balance,
    are rounded as binary64 arithmetic rounds them (\<open>roundDouble\<close>: to nearest, ties to
    even). Comparisons, negation and the expiry time are exact on doubles as they are on
    rationals. \<^verbatim>\<open>Infinity\<close> and \<^verbatim>\<open>NaN\<close> are outside the model, and the passcode is
    computed from the exact product and sum.
\<close>

subsection \<open>Data\<close>

datatype error =
    VALIDATION | UNAUTHORIZED | EMAIL_IN_USE | INVALID_CREDENTIALS
  | ACCOUNT_NOT_FOUND | INSUFFICIENT_FUNDS | TRANSFER_NOT_FOUND
  | OTP_EXPIRED | OTP_LOCKED | OTP_INVALID | OTP_REQUIRED | CONTACT_OFFICER

datatype status = PENDING_OTP | VERIFIED | COMPLETED

record user =
  u_id :: string
  u_email :: string
  u_password :: string
  u_name :: string

record account =
  acct_id :: string
  acct_userId :: string
  acct_name :: string
  acct_number :: string
  acct_balance :: rat
  acct_currency :: string

record transaction =
  tx_id :: string
  tx_accountId :: string
  tx_description :: string
  tx_amount :: rat
  tx_createdAt :: int

record otp =
  otp_code :: string
  otp_attempts :: nat
  otp_expiresAt :: int

record transfer =
  tr_id :: string
  tr_userId :: string
  tr_fromAccountId :: string
  tr_toAccountId :: string
  tr_amount :: rat
  tr_status :: status
  tr_otp :: "otp option"
  tr_createdAt :: int

record mockState =
  users :: "user list"
  tokens :: "string \<rightharpoonup> string"
  accounts :: "account list"
  transactions :: "transaction list"
  transfers :: "string \<rightharpoonup> transfer"

record receipt =
  rc_id :: string
  rc_fromAccount :: string
  rc_toAccount :: string
  rc_amount :: rat
  rc_currency :: string
  rc_createdAt :: int
  rc_reference :: string

text \<open>The \<^verbatim>\<open>{ id, email, name }\<close> summary returned by the auth endpoints.\<close>

type_synonym user_summary = "string \<times> string \<times> string"

definition summary :: "user \<Rightarrow> user_summary" where
  "summary u = (u_id u, u_email u, u_name u)"

subsection \<open>Numbers\<close>

text \<open>
  The result of an arithmetic operation on doubles is the exact result rounded to the
  nearest double, a tie going to the even significand. A double has a significand of 53
  bits: \<open>scaleUp\<close> and \<open>scaleDown\<close> bring the magnitude \<open>m\<close> into
  \<open>[2^52, 2^53)\<close> while \<open>u\<close> keeps the weight of its last place, and the
  significand is then rounded to an integer. The counters are the exponent range: after
  1074 doublings the last place is \<open>2^-1074\<close>, where the subnormal doubles keep it;
  a magnitude that 971 halvings do not bring below \<open>2^53\<close> is beyond the largest
  double, where the source has \<^verbatim>\<open>Infinity\<close> and the model does not apply.
\<close>

definition roundHalfEven :: "rat \<Rightarrow> int" where
  "roundHalfEven m =
     (let f = \<lfloor>m\<rfloor>; d = m - of_int f
      in if d < 1 / 2 then f else if 1 / 2 < d then f + 1 else if even f then f else f + 1)"

fun scaleUp :: "nat \<Rightarrow> rat \<Rightarrow> rat \<Rightarrow> rat \<times> rat" where
  "scaleUp n m u = (if n = 0 \<or> 2 ^ 52 \<le> m then (m, u) else scaleUp (n - 1) (2 * m) (u / 2))"

fun scaleDown :: "nat \<Rightarrow> rat \<Rightarrow> rat \<Rightarrow> rat \<times> rat" where
  "scaleDown n m u = (if n = 0 \<or> m < 2 ^ 53 then (m, u) else scaleDown (n - 1) (m / 2) (u * 2))"

declare scaleUp.simps [simp del] scaleDown.simps [simp del]

definition roundDouble :: "rat \<Rightarrow> rat" where
  "roundDouble x =
     (if x = 0 then 0
      else let (m, u) = (if 2 ^ 53 \<le> \<bar>x\<bar> then scaleDown 971 \<bar>x\<bar> 1 else scaleUp 1074 \<bar>x\<bar> 1)
           in sgn x * of_int (roundHalfEven m) * u)"

text \<open>The operators \<^verbatim>\<open>-\<close> and \<^verbatim>\<open>+\<close> of \<^verbatim>\<open>balance -= amount\<close> and \<^verbatim>\<open>balance += amount\<close>.\<close>

definition doubleSub :: "rat \<Rightarrow> rat \<Rightarrow> rat" where
  "doubleSub a b = roundDouble (a - b)"

definition doubleAdd :: "rat \<Rightarrow> rat \<Rightarrow> rat" where
  "doubleAdd a b = roundDouble (a + b)"

text \<open>
  The seeded state. \<open>t0\<close> is the value of \<^verbatim>\<open>Date.now()\<close> when the module is loaded.
  The literal \<^verbatim>\<open>13250.35\<close> denotes the double nearest to it; the other literals are
  doubles as they stand.
\<close>

definition initialState :: "int \<Rightarrow> mockState" where
  "initialState t0 =
     \<lparr> users = [\<lparr> u_id = ''user-1'', u_email = ''demo@bank.test'',
                  u_password = ''password123'', u_name = ''Demo Customer'' \<rparr>],
       tokens = Map.empty,
       accounts =
         [\<lparr> acct_id = ''acct-1'', acct_userId = ''user-1'', acct_name = ''Everyday Checking'',
            acct_number = ''1234567890'', acct_balance = 428075 / 100, acct_currency = ''USD'' \<rparr>,
          \<lparr> acct_id = ''acct-2'', acct_userId = ''user-1'', acct_name = ''Savings Vault'',
            acct_number = ''9876543210'', acct_balance = roundDouble (1325035 / 100),
            acct_currency = ''USD'' \<rparr>],
       transactions =
         [\<lparr> tx_id = ''tx-1'', tx_accountId = ''acct-1'', tx_description = ''Coffee shop'',
            tx_amount = - (875 / 100), tx_createdAt = t0 - 1000 * 60 * 60 * 4 \<rparr>,
          \<lparr> tx_id = ''tx-2'', tx_accountId = ''acct-1'', tx_description = ''Direct deposit'',
            tx_amount = 1800, tx_createdAt = t0 - 1000 * 60 * 60 * 26 \<rparr>,
          \<lparr> tx_id = ''tx-3'', tx_accountId = ''acct-2'', tx_description = ''Transfer to checking'',
            tx_amount = - 200, tx_createdAt = t0 - 1000 * 60 * 60 * 30 \<rparr>],
       transfers = Map.empty \<rparr>"

subsection \<open>Helpers\<close>

text \<open>
  \<^verbatim>\<open>makeId(prefix)\<close> is the prefix, a dash and a random base-36 suffix; the suffix is
  the argument \<open>rnd\<close>.
\<close>

definition makeId :: "string \<Rightarrow> string \<Rightarrow> string" where
  "makeId prefix rnd = prefix @ ''-'' @ rnd"

text \<open>
  \<^verbatim>\<open>Array.prototype.find\<close> returns a reference to the first element that satisfies
  the predicate. Where the source mutates the object found, the model needs its position.
\<close>

fun findIndex :: "('a \<Rightarrow> bool) \<Rightarrow> 'a list \<Rightarrow> nat option" where
  "findIndex P [] = None"
| "findIndex P (x # xs) = (if P x then Some 0 else map_option Suc (findIndex P xs))"

text \<open>Decimal \<^verbatim>\<open>toString()\<close> of a non-negative integer.\<close>

definition digitChar :: "nat \<Rightarrow> char" where
  "digitChar d = char_of (48 + d)"

fun toString :: "nat \<Rightarrow> string" where
  "toString n = (if n < 10 then [digitChar n] else toString (n div 10) @ [digitChar (n mod 10)])"

declare toString.simps [simp del]

definition isDigit :: "char \<Rightarrow> bool" where
  "isDigit c = (48 \<le> (of_char c :: nat) \<and> (of_char c :: nat) \<le> 57)"

text \<open>
  \<^verbatim>\<open>requireAuth\<close>: the token must map to a truthy user id, and a user with that id must
  exist.
\<close>

definition requireAuth :: "mockState \<Rightarrow> string \<Rightarrow> error + user" where
  "requireAuth s authToken =
     (case tokens s authToken of
        None \<Rightarrow> Inl UNAUTHORIZED
      | Some userId \<Rightarrow>
          if userId = [] then Inl UNAUTHORIZED
          else (case find (\<lambda>u. u_id u = userId) (users s) of
                  None \<Rightarrow> Inl UNAUTHORIZED
                | Some u \<Rightarrow> Inr u))"

subsection \<open>Auth endpoints\<close>

text \<open>
  \<open>rndUser\<close>, \<open>rndAcct\<close> and \<open>rndToken\<close> are the random suffixes of the three
  \<^verbatim>\<open>makeId\<close> calls and \<open>number\<close> is the random ten-digit account number.
\<close>

definition register ::
  "mockState \<Rightarrow> string \<Rightarrow> string \<Rightarrow> string \<Rightarrow> string \<Rightarrow> string \<Rightarrow> string \<Rightarrow> string
     \<Rightarrow> (error + user_summary \<times> string) \<times> mockState" where
  "register s email password name rndUser rndAcct number rndToken =
     (if email = [] \<or> password = [] then (Inl VALIDATION, s)
      else (case find (\<lambda>u. u_email u = email) (users s) of
              Some existing \<Rightarrow> (Inl EMAIL_IN_USE, s)
            | None \<Rightarrow>
                let newUser = \<lparr> u_id = makeId ''user'' rndUser, u_email = email,
                                u_password = password,
                                u_name = (if name = [] then ''New Customer'' else name) \<rparr>;
                    newAccount = \<lparr> acct_id = makeId ''acct'' rndAcct, acct_userId = u_id newUser,
                                   acct_name = ''New Checking'', acct_number = number,
                                   acct_balance = 0, acct_currency = ''USD'' \<rparr>;
                    token = makeId ''token'' rndToken
                in (Inr (summary newUser, token),
                    s\<lparr> users := users s @ [newUser],
                       accounts := accounts s @ [newAccount],
                       tokens := (tokens s)(token \<mapsto> u_id newUser) \<rparr>)))"

definition login ::
  "mockState \<Rightarrow> string \<Rightarrow> string \<Rightarrow> string \<Rightarrow> (error + user_summary \<times> string) \<times> mockState" where
  "login s email password rndToken =
     (case find (\<lambda>u. u_email u = email \<and> u_password u = password) (users s) of
        None \<Rightarrow> (Inl INVALID_CREDENTIALS, s)
      | Some u \<Rightarrow>
          let token = makeId ''token'' rndToken
          in (Inr (summary u, token), s\<lparr> tokens := (tokens s)(token \<mapsto> u_id u) \<rparr>))"

definition me :: "mockState \<Rightarrow> string \<Rightarrow> error + user_summary" where
  "me s authToken = map_sum id summary (requireAuth s authToken)"

subsection \<open>Ledger queries\<close>

definition mockAccounts :: "mockState \<Rightarrow> string \<Rightarrow> error + account list" where
  "mockAccounts s authToken =
     (case requireAuth s authToken of
        Inl e \<Rightarrow> Inl e
      | Inr u \<Rightarrow> Inr (filter (\<lambda>acct. acct_userId acct = u_id u) (accounts s)))"

text \<open>
  The \<open>accountId\<close> filter is optional: the router passes \<^verbatim>\<open>null\<close> when the query has
  none, and \<^verbatim>\<open>null\<close> and the empty string are both falsy. The comparator
  \<^verbatim>\<open>b.createdAt - a.createdAt\<close> of the stable \<^verbatim>\<open>sort\<close> is a stable sort on the
  negated timestamp.
\<close>

definition mockTransactions :: "mockState \<Rightarrow> string \<Rightarrow> string option \<Rightarrow> error + transaction list" where
  "mockTransactions s authToken accountId =
     (case requireAuth s authToken of
        Inl e \<Rightarrow> Inl e
      | Inr u \<Rightarrow>
          let accts = filter (\<lambda>acct. acct_userId acct = u_id u) (accounts s);
              allowedAccountIds = map acct_id accts
          in Inr (sort_key (\<lambda>tx. - tx_createdAt tx)
                    (filter (\<lambda>tx. case accountId of
                                     None \<Rightarrow> tx_accountId tx \<in> set allowedAccountIds
                                   | Some a \<Rightarrow>
                                       if a \<noteq> [] then tx_accountId tx = a
                                       else tx_accountId tx \<in> set allowedAccountIds)
                       (transactions s))))"

subsection \<open>The transfer workflow\<close>

definition initiate ::
  "mockState \<Rightarrow> string \<Rightarrow> string \<Rightarrow> string \<Rightarrow> rat \<Rightarrow> string \<Rightarrow> int
     \<Rightarrow> (error + string \<times> status) \<times> mockState" where
  "initiate s authToken fromAccountId toAccountId amount rnd now =
     (case requireAuth s authToken of
        Inl e \<Rightarrow> (Inl e, s)
      | Inr u \<Rightarrow>
          if fromAccountId = [] \<or> toAccountId = [] \<or> amount = 0 then (Inl VALIDATION, s)
          else (case find (\<lambda>acct. acct_id acct = fromAccountId \<and> acct_userId acct = u_id u)
                       (accounts s) of
                  None \<Rightarrow> (Inl ACCOUNT_NOT_FOUND, s)
                | Some fromAccount \<Rightarrow>
                    if amount > acct_balance fromAccount then (Inl INSUFFICIENT_FUNDS, s)
                    else
                      let transferId = makeId ''transfer'' rnd
                      in (Inr (transferId, PENDING_OTP),
                          s\<lparr> transfers := (transfers s)(transferId \<mapsto>
                               \<lparr> tr_id = transferId, tr_userId = u_id u,
                                 tr_fromAccountId = fromAccountId, tr_toAccountId = toAccountId,
                                 tr_amount = amount, tr_status = PENDING_OTP, tr_otp = None,
                                 tr_createdAt = now \<rparr>) \<rparr>)))"

text \<open>
  \<open>r\<close> is the result of \<^verbatim>\<open>Math.random()\<close>, a number in \<open>[0, 1)\<close>. The source
  reads the transfer before \<^verbatim>\<open>requireAuth\<close> and tests it after; the read has no
  effect, so the order of the two tests is the order of the two failures.
\<close>

definition otpCode :: "rat \<Rightarrow> string" where
  "otpCode r = toString (nat \<lfloor>100000 + r * 900000\<rfloor>)"

definition sendOtp ::
  "mockState \<Rightarrow> string \<Rightarrow> string \<Rightarrow> rat \<Rightarrow> int \<Rightarrow> (error + string) \<times> mockState" where
  "sendOtp s authToken transferId r now =
     (case requireAuth s authToken of
        Inl e \<Rightarrow> (Inl e, s)
      | Inr u \<Rightarrow>
          (case transfers s transferId of
             None \<Rightarrow> (Inl TRANSFER_NOT_FOUND, s)
           | Some transfer \<Rightarrow>
               let code = otpCode r
               in (Inr code,
                   s\<lparr> transfers := (transfers s)(transferId \<mapsto>
                        transfer\<lparr> tr_otp := Some \<lparr> otp_code = code, otp_attempts = 0,
                                                  otp_expiresAt = now + 5 * 60 * 1000 \<rparr> \<rparr>) \<rparr>)))"

definition verifyOtp ::
  "mockState \<Rightarrow> string \<Rightarrow> string \<Rightarrow> string \<Rightarrow> int \<Rightarrow> (error + status) \<times> mockState" where
  "verifyOtp s authToken transferId code now =
     (case requireAuth s authToken of
        Inl e \<Rightarrow> (Inl e, s)
      | Inr u \<Rightarrow>
          (case transfers s transferId of
             None \<Rightarrow> (Inl TRANSFER_NOT_FOUND, s)
           | Some transfer \<Rightarrow>
               (case tr_otp transfer of
                  None \<Rightarrow> (Inl TRANSFER_NOT_FOUND, s)
                | Some challenge \<Rightarrow>
                    if otp_expiresAt challenge < now then (Inl OTP_EXPIRED, s)
                    else if otp_attempts challenge \<ge> 5 then (Inl OTP_LOCKED, s)
                    else if otp_code challenge \<noteq> code then
                      (Inl OTP_INVALID,
                       s\<lparr> transfers := (transfers s)(transferId \<mapsto>
                            transfer\<lparr> tr_otp := Some (challenge\<lparr> otp_attempts :=
                                                       otp_attempts challenge + 1 \<rparr>) \<rparr>) \<rparr>)
                    else
                      (Inr VERIFIED,
                       s\<lparr> transfers := (transfers s)(transferId \<mapsto>
                            transfer\<lparr> tr_status := VERIFIED \<rparr>) \<rparr>))))"

text \<open>
  \<open>rnd\<close> is the suffix of the receipt id, \<open>now\<close> the time stamp of the transaction
  record, \<open>now2\<close> the later \<^verbatim>\<open>Date.now()\<close> of the receipt and \<open>reference\<close> the result
  of \<^verbatim>\<open>makeReferenceCode()\<close>. The destination is looked up after the debit, in the
  array that already holds the debited source.
\<close>

definition confirm ::
  "mockState \<Rightarrow> string \<Rightarrow> string \<Rightarrow> string \<Rightarrow> string \<Rightarrow> int \<Rightarrow> int \<Rightarrow> string
     \<Rightarrow> (error + string \<times> receipt) \<times> mockState" where
  "confirm s authToken transferId note rnd now now2 reference =
     (case requireAuth s authToken of
        Inl e \<Rightarrow> (Inl e, s)
      | Inr u \<Rightarrow>
          (case transfers s transferId of
             None \<Rightarrow> (Inl TRANSFER_NOT_FOUND, s)
           | Some transfer \<Rightarrow>
               if tr_status transfer \<noteq> VERIFIED then (Inl OTP_REQUIRED, s)
               else
                 (case findIndex (\<lambda>acct. acct_id acct = tr_fromAccountId transfer
                                          \<and> acct_userId acct = u_id u) (accounts s) of
                    None \<Rightarrow> (Inl ACCOUNT_NOT_FOUND, s)
                  | Some i \<Rightarrow>
                      if tr_amount transfer > acct_balance (accounts s ! i)
                      then (Inl INSUFFICIENT_FUNDS, s)
                      else
                        let debited = (accounts s)[i := (accounts s ! i)
                              \<lparr> acct_balance := doubleSub (acct_balance (accounts s ! i)) (tr_amount transfer) \<rparr>];
                            toAccount = findIndex (\<lambda>acct. acct_id acct = tr_toAccountId transfer) debited;
                            credited = (case toAccount of
                                None \<Rightarrow> debited
                              | Some j \<Rightarrow> debited[j := (debited ! j)
                                  \<lparr> acct_balance := doubleAdd (acct_balance (debited ! j)) (tr_amount transfer) \<rparr>]);
                            receiptId = makeId ''tx'' rnd;
                            fromAccount = credited ! i
                        in (Inr (transferId,
                                 \<lparr> rc_id = receiptId,
                                   rc_fromAccount = acct_number fromAccount,
                                   rc_toAccount = (case toAccount of
                                       None \<Rightarrow> tr_toAccountId transfer
                                     | Some j \<Rightarrow> if acct_number (credited ! j) = []
                                                then tr_toAccountId transfer
                                                else acct_number (credited ! j)),
                                   rc_amount = tr_amount transfer,
                                   rc_currency = acct_currency fromAccount,
                                   rc_createdAt = now2,
                                   rc_reference = reference \<rparr>),
                            s\<lparr> accounts := credited,
                               transactions := transactions s @
                                 [\<lparr> tx_id = receiptId, tx_accountId = acct_id fromAccount,
                                    tx_description = (if note = [] then ''Transfer'' else note),
                                    tx_amount = - tr_amount transfer, tx_createdAt = now \<rparr>],
                               transfers := (transfers s)(transferId \<mapsto>
                                 transfer\<lparr> tr_status := COMPLETED \<rparr>) \<rparr>))))"

subsection \<open>The request router\<close>

text \<open>
  \<^verbatim>\<open>routeMockRequest\<close> switches on the path and the method. A request is the matched
  case together with its payload and with the clock and random values the operation
  consumes; \<open>Unknown\<close> is the default case, whose failure carries no error code and is
  normalised to \<^verbatim>\<open>CONTACT_OFFICER\<close>.
\<close>

datatype request =
    Register string string string string string string string
  | Login string string string
  | Me
  | Accounts
  | Transactions "string option"
  | Initiate string string rat string int
  | SendOtp string rat int
  | VerifyOtp string string int
  | Confirm string string string int int string
  | Unknown

datatype response =
    RAuth user_summary string
  | RUser user_summary
  | RAccounts "account list"
  | RTransactions "transaction list"
  | RInitiated string status
  | ROtpSent string
  | RStatus status
  | RReceipt string receipt

fun routeMockRequest :: "mockState \<Rightarrow> string \<Rightarrow> request \<Rightarrow> (error + response) \<times> mockState" where
  "routeMockRequest s authToken (Register email password name rndUser rndAcct number rndToken) =
     apfst (map_sum id (\<lambda>(u, t). RAuth u t))
       (register s email password name rndUser rndAcct number rndToken)"
| "routeMockRequest s authToken (Login email password rndToken) =
     apfst (map_sum id (\<lambda>(u, t). RAuth u t)) (login s email password rndToken)"
| "routeMockRequest s authToken Me = (map_sum id RUser (me s authToken), s)"
| "routeMockRequest s authToken Accounts = (map_sum id RAccounts (mockAccounts s authToken), s)"
| "routeMockRequest s authToken (Transactions accountId) =
     (map_sum id RTransactions (mockTransactions s authToken accountId), s)"
| "routeMockRequest s authToken (Initiate fromAccountId toAccountId amount rnd now) =
     apfst (map_sum id (\<lambda>(t, st). RInitiated t st))
       (initiate s authToken fromAccountId toAccountId amount rnd now)"
| "routeMockRequest s authToken (SendOtp transferId r now) =
     apfst (map_sum id ROtpSent) (sendOtp s authToken transferId r now)"
| "routeMockRequest s authToken (VerifyOtp transferId code now) =
     apfst (map_sum id RStatus) (verifyOtp s authToken transferId code now)"
| "routeMockRequest s authToken (Confirm transferId note rnd now now2 reference) =
     apfst (map_sum id (\<lambda>(t, r). RReceipt t r))
       (confirm s authToken transferId note rnd now now2 reference)"
| "routeMockRequest s authToken Unknown = (Inl CONTACT_OFFICER, s)"

text \<open>The status stored for a transfer id, if the transfer exists.\<close>

definition statusOf :: "mockState \<Rightarrow> string \<Rightarrow> status option" where
  "statusOf s transferId = map_option tr_status (transfers s transferId)"

text \<open>The challenge stored for a transfer id, if the transfer exists and has one.\<close>

definition challengeOf :: "mockState \<Rightarrow> string \<Rightarrow> otp option" where
  "challengeOf s transferId = Option.bind (transfers s transferId) tr_otp"

text \<open>
  A run of \<^verbatim>\<open>verifyOtp\<close> calls on one transfer, each with its submitted code and its
  time: the outcomes in order, and the state after the last call.
\<close>

fun verifyAll ::
  "mockState \<Rightarrow> string \<Rightarrow> string \<Rightarrow> (string \<times> int) list \<Rightarrow> (error + status) list \<times> mockState" where
  "verifyAll s authToken transferId [] = ([], s)"
| "verifyAll s authToken transferId ((code, now) # calls) =
     (let (r, s') = verifyOtp s authToken transferId code now;
          (rs, s'') = verifyAll s' authToken transferId calls
      in (r # rs, s''))"

text \<open>
  A run of requests through the router, each with the token it carries: the outcomes in
  order, and the state after the last request. A request replaces the challenge of a
  transfer when it is a \<^verbatim>\<open>sendOtp\<close> for it, or an \<^verbatim>\<open>initiate\<close> whose new id is the id
  of that transfer, which stores a new record without a challenge. A failed attempt on a
  transfer is a \<^verbatim>\<open>verifyOtp\<close> for it that is answered \<^verbatim>\<open>OTP_INVALID\<close>.
\<close>

fun runRequests ::
  "mockState \<Rightarrow> (string \<times> request) list \<Rightarrow> (error + response) list \<times> mockState" where
  "runRequests s [] = ([], s)"
| "runRequests s ((authToken, req) # reqs) =
     (let (r, s') = routeMockRequest s authToken req;
          (rs, s'') = runRequests s' reqs
      in (r # rs, s''))"

fun replacesChallenge :: "string \<Rightarrow> request \<Rightarrow> bool" where
  "replacesChallenge t (SendOtp transferId r now) = (transferId = t)"
| "replacesChallenge t (Initiate fromAccountId toAccountId amount rnd now) =
     (makeId ''transfer'' rnd = t)"
| "replacesChallenge t req = False"

fun failedAttempt :: "string \<Rightarrow> request \<times> (error + response) \<Rightarrow> bool" where
  "failedAttempt t (VerifyOtp transferId code now, r) = (transferId = t \<and> r = Inl OTP_INVALID)"
| "failedAttempt t (req, r) = False"

subsection \<open>A session of the demo customer\<close>

text \<open>
  The states of one run of the workflow, each produced by the operation itself: the
  demo customer logs in, initiates a transfer of 100 from checking to savings, is sent
  the code \<open>550000\<close> at time 2000, verifies it and confirms.
\<close>

definition demoUser :: user where
  "demoUser = \<lparr> u_id = ''user-1'', u_email = ''demo@bank.test'',
                 u_password = ''password123'', u_name = ''Demo Customer'' \<rparr>"

definition demoState :: mockState where
  "demoState = snd (login (initialState 0) ''demo@bank.test'' ''password123'' ''demo'')"

definition pendingState :: mockState where
  "pendingState = snd (initiate demoState ''token-demo'' ''acct-1'' ''acct-2'' 100 ''t1'' 1000)"

definition sentState :: mockState where
  "sentState = snd (sendOtp pendingState ''token-demo'' ''transfer-t1'' (1 / 2) 2000)"

definition verifiedState :: mockState where
  "verifiedState = snd (verifyOtp sentState ''token-demo'' ''transfer-t1'' ''550000'' 3000)"

definition completedState :: mockState where
  "completedState =
     snd (confirm verifiedState ''token-demo'' ''transfer-t1'' [] ''r1'' 4000 4001 ''REF-AAAA-BBBB'')"

text \<open>The same challenge after five wrong codes.\<close>

definition lockedState :: mockState where
  "lockedState =
     snd (verifyAll sentState ''token-demo'' ''transfer-t1''
            [(''000000'', 3000), (''000001'', 3001), (''000002'', 3002),
             (''000003'', 3003), (''000004'', 3004)])"

text \<open>
  Requests that lead from the sent challenge to the locked one: five wrong codes by the
  demo customer, with a profile request and an attempt without a session in between.
\<close>

definition lockingRun :: "(string \<times> request) list" where
  "lockingRun =
     [(''token-demo'', VerifyOtp ''transfer-t1'' ''000000'' 3000),
      (''token-demo'', Me),
      (''token-demo'', VerifyOtp ''transfer-t1'' ''000001'' 3001),
      (''nobody'', VerifyOtp ''transfer-t1'' ''550000'' 3001),
      (''token-demo'', VerifyOtp ''transfer-t1'' ''000002'' 3002),
      (''token-demo'', VerifyOtp ''transfer-t1'' ''000003'' 3003),
      (''token-demo'', VerifyOtp ''transfer-t1'' ''000004'' 3004)]"

text \<open>A verified transfer of 100 from the checking account to itself.\<close>

definition selfVerifiedState :: mockState where
  "selfVerifiedState =
     (let s1 = snd (initiate demoState ''token-demo'' ''acct-1'' ''acct-1'' 100 ''t2'' 1000);
          s2 = snd (sendOtp s1 ''token-demo'' ''transfer-t2'' (1 / 2) 2000)
      in snd (verifyOtp s2 ''token-demo'' ''transfer-t2'' ''550000'' 3000))"

text \<open>A verified transfer of \<^verbatim>\<open>0.03\<close> from the checking to the savings account.\<close>

definition centsVerifiedState :: mockState where
  "centsVerifiedState =
     (let s1 = snd (initiate demoState ''token-demo'' ''acct-1'' ''acct-2'' (roundDouble (3 / 100))
                      ''t3'' 1000);
          s2 = snd (sendOtp s1 ''token-demo'' ''transfer-t3'' (1 / 2) 2000)
      in snd (verifyOtp s2 ''token-demo'' ''transfer-t3'' ''550000'' 3000))"

text \<open>A second customer registers next to the demo customer.\<close>

definition eveState :: mockState where
  "eveState =
     snd (register (initialState 0) ''eve@bank.test'' ''secret'' ''Eve'' ''eve'' ''eve''
            ''5555555555'' ''eve'')"

section \<open>Auxiliary facts\<close>

subsection \<open>Rounding\<close>

lemma floor_numeral_div: "\<lfloor>(numeral a :: rat) / numeral b\<rfloor> = numeral a div numeral b"
  using floor_divide_of_int_eq [of "numeral a" "numeral b", where ?'a = rat] by simp

lemmas double_eval = roundDouble_def scaleUp.simps scaleDown.simps roundHalfEven_def Let_def
  floor_numeral_div doubleSub_def doubleAdd_def

lemma savings_literal: "roundDouble (1325035 / 100) = 7284456948550861 / 549755813888"
  by (simp add: double_eval)

lemma cents_literal: "roundDouble (3 / 100) = 1080863910568919 / 36028797018963968"
  by (simp add: double_eval)

lemma roundHalfEven_of_int: "roundHalfEven (of_int n) = n"
  by (simp add: roundHalfEven_def)

lemma scaleUp_invariant:
  "scaleUp n m u = (m', u') \<Longrightarrow> m' * u' = m * u \<and> (m \<in> \<int> \<longrightarrow> m' \<in> \<int>)"
proof (induction n m u rule: scaleUp.induct)
  case (1 n m u)
  show ?case
  proof (cases "n = 0 \<or> 2 ^ 52 \<le> m")
    case True
    with "1.prems" show ?thesis by (simp add: scaleUp.simps [of n m u])
  next
    case False
    with "1.prems" have "scaleUp (n - 1) (2 * m) (u / 2) = (m', u')"
      by (simp add: scaleUp.simps [of n m u])
    from "1.IH" [OF False this] show ?thesis by auto
  qed
qed

lemma roundDouble_of_int:
  assumes "\<bar>n\<bar> < 2 ^ 53"
  shows "roundDouble (of_int n) = of_int n"
proof (cases "n = 0")
  case True
  then show ?thesis by (simp add: roundDouble_def)
next
  case False
  obtain m' u' where sc: "scaleUp 1074 \<bar>of_int n\<bar> 1 = (m', u')"
    by (cases "scaleUp 1074 \<bar>of_int n :: rat\<bar> 1")
  have "\<bar>of_int n :: rat\<bar> \<in> \<int>" by simp
  with scaleUp_invariant [OF sc] have prod: "m' * u' = \<bar>of_int n\<bar>" and "m' \<in> \<int>"
    by simp_all
  then obtain k where k: "m' = of_int k" by (auto elim: Ints_cases)
  have small: "\<not> (2 ^ 53 \<le> \<bar>of_int n :: rat\<bar>)"
  proof -
    have "(of_int \<bar>n\<bar> :: rat) < of_int (2 ^ 53)" using assms by (simp only: of_int_less_iff)
    then show ?thesis by simp
  qed
  have "roundDouble (of_int n) = sgn (of_int n) * of_int (roundHalfEven m') * u'"
    using False small sc by (simp add: roundDouble_def)
  also have "\<dots> = sgn (of_int n) * (m' * u')"
    by (simp add: k roundHalfEven_of_int)
  also have "\<dots> = of_int n"
    unfolding prod by (simp add: sgn_mult_abs)
  finally show ?thesis .
qed

subsection \<open>One-time passcodes\<close>

lemma digitChar_simps:
  "digitChar 0 = CHR ''0''" "digitChar 1 = CHR ''1''" "digitChar 2 = CHR ''2''"
  "digitChar 3 = CHR ''3''" "digitChar 4 = CHR ''4''" "digitChar 5 = CHR ''5''"
  "digitChar 6 = CHR ''6''" "digitChar 7 = CHR ''7''" "digitChar 8 = CHR ''8''"
  "digitChar 9 = CHR ''9''"
  by code_simp+

lemma otpCode_half: "otpCode (1 / 2) = ''550000''"
  by (simp add: otpCode_def toString.simps digitChar_simps)

lemma otpCode_quarter: "otpCode (1 / 4) = ''325000''"
  by (simp add: otpCode_def toString.simps digitChar_simps)

lemma isDigit_digitChar: "d < 10 \<Longrightarrow> isDigit (digitChar d)"
  by (simp add: isDigit_def digitChar_def)

lemma toString_digits: "c \<in> set (toString n) \<Longrightarrow> isDigit c"
proof (induction n rule: toString.induct)
  case (1 n)
  show ?case
  proof (cases "n < 10")
    case True
    with "1.prems" show ?thesis
      by (simp add: toString.simps [of n] isDigit_digitChar)
  next
    case False
    with "1.prems" have "c \<in> set (toString (n div 10)) \<or> c = digitChar (n mod 10)"
      by (auto simp add: toString.simps [of n])
    then show ?thesis
      using "1.IH" False by (auto simp: isDigit_digitChar)
  qed
qed

lemma toString_length: "10 ^ k \<le> n \<Longrightarrow> n < 10 ^ Suc k \<Longrightarrow> length (toString n) = Suc k"
proof (induction k arbitrary: n)
  case 0
  then show ?case by (simp add: toString.simps [of n])
next
  case (Suc k)
  have "(1::nat) \<le> 10 ^ k" by simp
  then have "(10::nat) \<le> 10 ^ Suc k" by simp
  with Suc.prems have big: "\<not> n < 10" by linarith
  from Suc.prems have "10 * 10 ^ k \<le> n" "n < 10 * 10 ^ Suc k" by simp_all
  then have lo: "10 ^ k \<le> n div 10" and hi: "n div 10 < 10 ^ Suc k"
    by linarith+
  from Suc.IH [OF lo hi] big show ?case
    by (simp add: toString.simps [of n])
qed

lemma otp_range:
  fixes r :: rat
  assumes "0 \<le> r" "r < 1"
  shows "10 ^ 5 \<le> nat \<lfloor>100000 + r * 900000\<rfloor>" "nat \<lfloor>100000 + r * 900000\<rfloor> < 10 ^ Suc 5"
proof -
  define x where "x = \<lfloor>r * 900000\<rfloor>"
  have "(0::rat) \<le> r * 900000" using assms by simp
  then have lo: "0 \<le> x" unfolding x_def by (simp only: zero_le_floor)
  have "r * 900000 < (900000::rat)" using assms by simp
  then have hi: "x < 900000" unfolding x_def by (simp only: floor_less_iff of_int_numeral)
  have eq: "\<lfloor>100000 + r * 900000\<rfloor> = 100000 + x" unfolding x_def by simp
  show "10 ^ 5 \<le> nat \<lfloor>100000 + r * 900000\<rfloor>" unfolding eq using lo by simp
  show "nat \<lfloor>100000 + r * 900000\<rfloor> < 10 ^ Suc 5" unfolding eq using lo hi by simp
qed

lemma otpCode_six_digits:
  fixes r :: rat
  assumes "0 \<le> r" "r < 1"
  shows "length (otpCode r) = 6" "c \<in> set (otpCode r) \<Longrightarrow> isDigit c"
  using toString_length [OF otp_range [OF assms]] toString_digits
  by (simp_all add: otpCode_def)

subsection \<open>Authentication and what each operation leaves alone\<close>

lemma requireAuth_error: "requireAuth s authToken = Inl e \<Longrightarrow> e = UNAUTHORIZED"
  by (auto simp: requireAuth_def split: option.splits if_splits)

lemma requireAuth_frame:
  "tokens s' = tokens s \<Longrightarrow> users s' = users s \<Longrightarrow> requireAuth s' authToken = requireAuth s authToken"
  by (simp add: requireAuth_def split: option.splits)

lemma initiate_frame:
  "tokens (snd (initiate s a f t m r n)) = tokens s"
  "users (snd (initiate s a f t m r n)) = users s"
  "accounts (snd (initiate s a f t m r n)) = accounts s"
  "transactions (snd (initiate s a f t m r n)) = transactions s"
  by (simp_all add: initiate_def Let_def split: sum.splits option.splits)

lemma sendOtp_frame:
  "tokens (snd (sendOtp s a t r n)) = tokens s"
  "users (snd (sendOtp s a t r n)) = users s"
  "accounts (snd (sendOtp s a t r n)) = accounts s"
  "transactions (snd (sendOtp s a t r n)) = transactions s"
  by (simp_all add: sendOtp_def Let_def split: sum.splits option.splits)

lemma verifyOtp_frame:
  "tokens (snd (verifyOtp s a t c n)) = tokens s"
  "users (snd (verifyOtp s a t c n)) = users s"
  "accounts (snd (verifyOtp s a t c n)) = accounts s"
  "transactions (snd (verifyOtp s a t c n)) = transactions s"
  by (simp_all add: verifyOtp_def Let_def split: sum.splits option.splits)

lemma confirm_frame:
  "tokens (snd (confirm s a t c r n n2 ref)) = tokens s"
  "users (snd (confirm s a t c r n n2 ref)) = users s"
  by (simp_all add: confirm_def Let_def split: sum.splits option.splits)

subsection \<open>The states of the session, evaluated\<close>

lemma demoState_eq:
  "demoState = (initialState 0)\<lparr> tokens := [''token-demo'' \<mapsto> ''user-1''] \<rparr>"
  by (simp add: demoState_def login_def initialState_def makeId_def Let_def)

lemma requireAuth_demoState: "requireAuth demoState ''token-demo'' = Inr demoUser"
  by (simp add: requireAuth_def demoState_eq initialState_def demoUser_def)

lemma find_acct1:
  "find (\<lambda>acct. acct_id acct = ''acct-1'' \<and> acct_userId acct = u_id demoUser) (accounts demoState)
     = Some (hd (accounts demoState))"
  by (simp add: demoState_eq initialState_def demoUser_def)

lemma pendingState_eq:
  "pendingState = demoState\<lparr> transfers := [''transfer-t1'' \<mapsto>
     \<lparr> tr_id = ''transfer-t1'', tr_userId = ''user-1'', tr_fromAccountId = ''acct-1'',
       tr_toAccountId = ''acct-2'', tr_amount = 100, tr_status = PENDING_OTP, tr_otp = None,
       tr_createdAt = 1000 \<rparr>] \<rparr>"
  by (simp add: pendingState_def initiate_def requireAuth_demoState Let_def)
     (simp add: demoState_eq initialState_def demoUser_def makeId_def Let_def)

lemma sentState_eq:
  "sentState = demoState\<lparr> transfers := [''transfer-t1'' \<mapsto>
     \<lparr> tr_id = ''transfer-t1'', tr_userId = ''user-1'', tr_fromAccountId = ''acct-1'',
       tr_toAccountId = ''acct-2'', tr_amount = 100, tr_status = PENDING_OTP,
       tr_otp = Some \<lparr> otp_code = ''550000'', otp_attempts = 0, otp_expiresAt = 302000 \<rparr>,
       tr_createdAt = 1000 \<rparr>] \<rparr>"
proof -
  have auth: "requireAuth pendingState ''token-demo'' = Inr demoUser"
    by (simp add: pendingState_eq requireAuth_frame [of _ demoState] requireAuth_demoState)
  show ?thesis
    by (simp add: sentState_def sendOtp_def auth)
       (simp add: pendingState_eq Let_def otpCode_half)
qed

lemma requireAuth_sentState: "requireAuth sentState ''token-demo'' = Inr demoUser"
  by (simp add: sentState_eq requireAuth_frame [of _ demoState] requireAuth_demoState)

lemma lockedState_eq:
  "lockedState = demoState\<lparr> transfers := [''transfer-t1'' \<mapsto>
     \<lparr> tr_id = ''transfer-t1'', tr_userId = ''user-1'', tr_fromAccountId = ''acct-1'',
       tr_toAccountId = ''acct-2'', tr_amount = 100, tr_status = PENDING_OTP,
       tr_otp = Some \<lparr> otp_code = ''550000'', otp_attempts = 5, otp_expiresAt = 302000 \<rparr>,
       tr_createdAt = 1000 \<rparr>] \<rparr>"
  by (simp add: lockedState_def sentState_eq verifyOtp_def
        requireAuth_frame [of _ demoState] requireAuth_demoState eval_nat_numeral)

lemma requireAuth_lockedState: "requireAuth lockedState ''token-demo'' = Inr demoUser"
  by (simp add: lockedState_eq requireAuth_frame [of _ demoState] requireAuth_demoState)

lemma sendOtp_success:
  assumes "requireAuth s authToken = Inr u" and "transfers s transferId = Some transfer"
  shows "sendOtp s authToken transferId r now =
           (Inr (otpCode r),
            s\<lparr> transfers := (transfers s)(transferId \<mapsto>
                 transfer\<lparr> tr_otp := Some \<lparr> otp_code = otpCode r, otp_attempts = 0,
                                           otp_expiresAt = now + 5 * 60 * 1000 \<rparr> \<rparr>) \<rparr>)"
  using assms by (simp add: sendOtp_def Let_def)

subsection \<open>Finding and updating accounts; what confirm does\<close>

lemma findIndex_SomeD: "findIndex P xs = Some i \<Longrightarrow> i < length xs \<and> P (xs ! i)"
  by (induction xs arbitrary: i) (auto split: if_splits)

lemma findIndex_update:
  "i < length xs \<Longrightarrow> P y = P (xs ! i) \<Longrightarrow> findIndex P (xs[i := y]) = findIndex P xs"
proof (induction xs arbitrary: i)
  case Nil
  then show ?case by simp
next
  case (Cons x xs)
  then show ?case by (cases i) simp_all
qed

lemma find_findIndex: "find P xs = map_option ((!) xs) (findIndex P xs)"
  by (induction xs) (simp_all add: option.map_comp comp_def)

lemma confirm_failure: 
  "fst (confirm s authToken transferId note rnd now now2 reference) = Inl e
     \<Longrightarrow> snd (confirm s authToken transferId note rnd now now2 reference) = s"
  by (auto simp: confirm_def Let_def split: sum.splits option.splits if_splits)

lemma confirm_InrD:
  assumes "fst (confirm s authToken transferId note rnd now now2 reference) = Inr result"
  shows "\<exists>u transfer i. requireAuth s authToken = Inr u \<and> transfers s transferId = Some transfer
           \<and> tr_status transfer = VERIFIED
           \<and> findIndex (\<lambda>acct. acct_id acct = tr_fromAccountId transfer \<and> acct_userId acct = u_id u)
                (accounts s) = Some i
           \<and> tr_amount transfer \<le> acct_balance (accounts s ! i)"
  using assms
  by (auto simp: confirm_def Let_def split: sum.splits option.splits if_splits)

lemma confirm_success:
  assumes "requireAuth s authToken = Inr u" and "transfers s transferId = Some transfer"
    and "tr_status transfer = VERIFIED"
    and "findIndex (\<lambda>acct. acct_id acct = tr_fromAccountId transfer \<and> acct_userId acct = u_id u)
           (accounts s) = Some i"
    and "tr_amount transfer \<le> acct_balance (accounts s ! i)"
  shows "\<exists>rc. fst (confirm s authToken transferId note rnd now now2 reference) = Inr (transferId, rc)"
    and "transfers (snd (confirm s authToken transferId note rnd now now2 reference)) =
           (transfers s)(transferId \<mapsto> transfer\<lparr> tr_status := COMPLETED \<rparr>)"
    and "transactions (snd (confirm s authToken transferId note rnd now now2 reference)) =
           transactions s @
             [\<lparr> tx_id = makeId ''tx'' rnd, tx_accountId = acct_id (accounts s ! i),
                tx_description = (if note = [] then ''Transfer'' else note),
                tx_amount = - tr_amount transfer, tx_createdAt = now \<rparr>]"
    and "accounts (snd (confirm s authToken transferId note rnd now now2 reference)) =
           (let debited = (accounts s)[i := (accounts s ! i)
                  \<lparr> acct_balance := doubleSub (acct_balance (accounts s ! i)) (tr_amount transfer) \<rparr>]
            in case findIndex (\<lambda>acct. acct_id acct = tr_toAccountId transfer) (accounts s) of
                 None \<Rightarrow> debited
               | Some j \<Rightarrow> debited[j := (debited ! j)
                   \<lparr> acct_balance := doubleAdd (acct_balance (debited ! j)) (tr_amount transfer) \<rparr>])"
proof -
  from findIndex_SomeD [OF assms(4)] have i: "i < length (accounts s)" by simp
  let ?debited = "(accounts s)[i := (accounts s ! i)
                  \<lparr> acct_balance := doubleSub (acct_balance (accounts s ! i)) (tr_amount transfer) \<rparr>]"
  have dst: "findIndex (\<lambda>acct. acct_id acct = tr_toAccountId transfer) ?debited
           = findIndex (\<lambda>acct. acct_id acct = tr_toAccountId transfer) (accounts s)"
    by (rule findIndex_update [OF i]) simp
  have less: "\<not> acct_balance (accounts s ! i) < tr_amount transfer"
    using assms(5) by simp
  show "\<exists>rc. fst (confirm s authToken transferId note rnd now now2 reference) = Inr (transferId, rc)"
    using assms(1-4) less by (simp add: confirm_def Let_def)
  show "transfers (snd (confirm s authToken transferId note rnd now now2 reference)) =
           (transfers s)(transferId \<mapsto> transfer\<lparr> tr_status := COMPLETED \<rparr>)"
    using assms(1-4) less by (simp add: confirm_def Let_def)
  have fromId: "\<And>j. acct_id ((?debited[j := (?debited ! j)
        \<lparr> acct_balance := doubleAdd (acct_balance (?debited ! j)) (tr_amount transfer) \<rparr>]) ! i)
      = acct_id (accounts s ! i)"
    using i by (simp add: nth_list_update)
  show "transactions (snd (confirm s authToken transferId note rnd now now2 reference)) =
           transactions s @
             [\<lparr> tx_id = makeId ''tx'' rnd, tx_accountId = acct_id (accounts s ! i),
                tx_description = (if note = [] then ''Transfer'' else note),
                tx_amount = - tr_amount transfer, tx_createdAt = now \<rparr>]"
    using assms(1-4) less i fromId
    by (simp add: confirm_def Let_def dst split: option.splits)
  show "accounts (snd (confirm s authToken transferId note rnd now now2 reference)) =
           (let debited = ?debited
            in case findIndex (\<lambda>acct. acct_id acct = tr_toAccountId transfer) (accounts s) of
                 None \<Rightarrow> debited
               | Some j \<Rightarrow> debited[j := (debited ! j)
                   \<lparr> acct_balance := doubleAdd (acct_balance (debited ! j)) (tr_amount transfer) \<rparr>])"
    using assms(1-4) less by (simp add: confirm_def Let_def dst)
qed

lemma verifiedState_eq:
  "verifiedState = demoState\<lparr> transfers := [''transfer-t1'' \<mapsto>
     \<lparr> tr_id = ''transfer-t1'', tr_userId = ''user-1'', tr_fromAccountId = ''acct-1'',
       tr_toAccountId = ''acct-2'', tr_amount = 100, tr_status = VERIFIED,
       tr_otp = Some \<lparr> otp_code = ''550000'', otp_attempts = 0, otp_expiresAt = 302000 \<rparr>,
       tr_createdAt = 1000 \<rparr>] \<rparr>"
  by (simp add: verifiedState_def verifyOtp_def requireAuth_sentState) (simp add: sentState_eq)

lemma requireAuth_verifiedState: "requireAuth verifiedState ''token-demo'' = Inr demoUser"
  by (simp add: verifiedState_eq requireAuth_frame [of _ demoState] requireAuth_demoState)

lemma accounts_demoState:
  "accounts demoState =
     [\<lparr> acct_id = ''acct-1'', acct_userId = ''user-1'', acct_name = ''Everyday Checking'',
        acct_number = ''1234567890'', acct_balance = 428075 / 100, acct_currency = ''USD'' \<rparr>,
      \<lparr> acct_id = ''acct-2'', acct_userId = ''user-1'', acct_name = ''Savings Vault'',
        acct_number = ''9876543210'', acct_balance = 7284456948550861 / 549755813888,
        acct_currency = ''USD'' \<rparr>]"
  by (simp add: demoState_eq initialState_def double_eval)

lemma selfVerifiedState_eq:
  "selfVerifiedState = demoState\<lparr> transfers := [''transfer-t2'' \<mapsto>
     \<lparr> tr_id = ''transfer-t2'', tr_userId = ''user-1'', tr_fromAccountId = ''acct-1'',
       tr_toAccountId = ''acct-1'', tr_amount = 100, tr_status = VERIFIED,
       tr_otp = Some \<lparr> otp_code = ''550000'', otp_attempts = 0, otp_expiresAt = 302000 \<rparr>,
       tr_createdAt = 1000 \<rparr>] \<rparr>"
proof -
  let ?s1 = "snd (initiate demoState ''token-demo'' ''acct-1'' ''acct-1'' 100 ''t2'' 1000)"
  let ?s2 = "snd (sendOtp ?s1 ''token-demo'' ''transfer-t2'' (1 / 2) 2000)"
  have s1: "?s1 = demoState\<lparr> transfers := [''transfer-t2'' \<mapsto>
     \<lparr> tr_id = ''transfer-t2'', tr_userId = ''user-1'', tr_fromAccountId = ''acct-1'',
       tr_toAccountId = ''acct-1'', tr_amount = 100, tr_status = PENDING_OTP, tr_otp = None,
       tr_createdAt = 1000 \<rparr>] \<rparr>"
    by (simp add: initiate_def requireAuth_demoState Let_def)
       (simp add: demoState_eq initialState_def demoUser_def makeId_def Let_def)
  have a1: "requireAuth ?s1 ''token-demo'' = Inr demoUser"
    by (simp add: requireAuth_frame [of ?s1 demoState] initiate_frame requireAuth_demoState)
  have s2: "?s2 = demoState\<lparr> transfers := [''transfer-t2'' \<mapsto>
     \<lparr> tr_id = ''transfer-t2'', tr_userId = ''user-1'', tr_fromAccountId = ''acct-1'',
       tr_toAccountId = ''acct-1'', tr_amount = 100, tr_status = PENDING_OTP,
       tr_otp = Some \<lparr> otp_code = ''550000'', otp_attempts = 0, otp_expiresAt = 302000 \<rparr>,
       tr_createdAt = 1000 \<rparr>] \<rparr>"
    by (simp add: sendOtp_def a1) (simp add: s1 Let_def otpCode_half)
  have a2: "requireAuth ?s2 ''token-demo'' = Inr demoUser"
    by (simp add: s2 requireAuth_frame [of _ demoState] requireAuth_demoState)
  show ?thesis
    unfolding selfVerifiedState_def Let_def
    by (simp add: verifyOtp_def a2) (simp add: s2)
qed

lemma requireAuth_selfVerifiedState: "requireAuth selfVerifiedState ''token-demo'' = Inr demoUser"
  by (simp add: selfVerifiedState_eq requireAuth_frame [of _ demoState] requireAuth_demoState)

lemma centsVerifiedState_eq:
  "centsVerifiedState = demoState\<lparr> transfers := [''transfer-t3'' \<mapsto>
     \<lparr> tr_id = ''transfer-t3'', tr_userId = ''user-1'', tr_fromAccountId = ''acct-1'',
       tr_toAccountId = ''acct-2'', tr_amount = 1080863910568919 / 36028797018963968,
       tr_status = VERIFIED,
       tr_otp = Some \<lparr> otp_code = ''550000'', otp_attempts = 0, otp_expiresAt = 302000 \<rparr>,
       tr_createdAt = 1000 \<rparr>] \<rparr>"
proof -
  let ?s1 = "snd (initiate demoState ''token-demo'' ''acct-1'' ''acct-2'' (roundDouble (3 / 100))
                    ''t3'' 1000)"
  let ?s2 = "snd (sendOtp ?s1 ''token-demo'' ''transfer-t3'' (1 / 2) 2000)"
  have s1: "?s1 = demoState\<lparr> transfers := [''transfer-t3'' \<mapsto>
     \<lparr> tr_id = ''transfer-t3'', tr_userId = ''user-1'', tr_fromAccountId = ''acct-1'',
       tr_toAccountId = ''acct-2'', tr_amount = 1080863910568919 / 36028797018963968,
       tr_status = PENDING_OTP, tr_otp = None, tr_createdAt = 1000 \<rparr>] \<rparr>"
    unfolding cents_literal
    by (simp add: initiate_def requireAuth_demoState Let_def)
       (simp add: demoState_eq initialState_def demoUser_def makeId_def Let_def)
  have a1: "requireAuth ?s1 ''token-demo'' = Inr demoUser"
    by (simp add: requireAuth_frame [of ?s1 demoState] initiate_frame requireAuth_demoState)
  have s2: "?s2 = demoState\<lparr> transfers := [''transfer-t3'' \<mapsto>
     \<lparr> tr_id = ''transfer-t3'', tr_userId = ''user-1'', tr_fromAccountId = ''acct-1'',
       tr_toAccountId = ''acct-2'', tr_amount = 1080863910568919 / 36028797018963968,
       tr_status = PENDING_OTP,
       tr_otp = Some \<lparr> otp_code = ''550000'', otp_attempts = 0, otp_expiresAt = 302000 \<rparr>,
       tr_createdAt = 1000 \<rparr>] \<rparr>"
    by (simp add: sendOtp_def a1) (simp add: s1 Let_def otpCode_half)
  have a2: "requireAuth ?s2 ''token-demo'' = Inr demoUser"
    by (simp add: s2 requireAuth_frame [of _ demoState] requireAuth_demoState)
  show ?thesis
    unfolding centsVerifiedState_def Let_def
    by (simp add: verifyOtp_def a2) (simp add: s2)
qed

lemma requireAuth_centsVerifiedState: "requireAuth centsVerifiedState ''token-demo'' = Inr demoUser"
  by (simp add: centsVerifiedState_eq requireAuth_frame [of _ demoState] requireAuth_demoState)

lemma completedState_eq:
  "completedState = demoState\<lparr>
     accounts :=
       [\<lparr> acct_id = ''acct-1'', acct_userId = ''user-1'', acct_name = ''Everyday Checking'',
          acct_number = ''1234567890'', acct_balance = 418075 / 100, acct_currency = ''USD'' \<rparr>,
        \<lparr> acct_id = ''acct-2'', acct_userId = ''user-1'', acct_name = ''Savings Vault'',
          acct_number = ''9876543210'', acct_balance = 7339432529939661 / 549755813888,
          acct_currency = ''USD'' \<rparr>],
     transactions := transactions demoState @
       [\<lparr> tx_id = ''tx-r1'', tx_accountId = ''acct-1'', tx_description = ''Transfer'',
          tx_amount = - 100, tx_createdAt = 4000 \<rparr>],
     transfers := [''transfer-t1'' \<mapsto>
       \<lparr> tr_id = ''transfer-t1'', tr_userId = ''user-1'', tr_fromAccountId = ''acct-1'',
         tr_toAccountId = ''acct-2'', tr_amount = 100, tr_status = COMPLETED,
         tr_otp = Some \<lparr> otp_code = ''550000'', otp_attempts = 0, otp_expiresAt = 302000 \<rparr>,
         tr_createdAt = 1000 \<rparr>] \<rparr>"
  by (simp add: completedState_def confirm_def requireAuth_verifiedState)
     (simp add: verifiedState_eq accounts_demoState demoUser_def makeId_def double_eval)

lemma requireAuth_completedState: "requireAuth completedState ''token-demo'' = Inr demoUser"
  by (simp add: completedState_eq requireAuth_frame [of _ demoState] requireAuth_demoState)

lemma verifiedState_transfer:
  "transfers verifiedState ''transfer-t1'' = Some
     \<lparr> tr_id = ''transfer-t1'', tr_userId = ''user-1'', tr_fromAccountId = ''acct-1'',
       tr_toAccountId = ''acct-2'', tr_amount = 100, tr_status = VERIFIED,
       tr_otp = Some \<lparr> otp_code = ''550000'', otp_attempts = 0, otp_expiresAt = 302000 \<rparr>,
       tr_createdAt = 1000 \<rparr>"
  by (simp add: verifiedState_eq)

lemma completedState_transfer:
  "transfers completedState ''transfer-t1'' = Some
     \<lparr> tr_id = ''transfer-t1'', tr_userId = ''user-1'', tr_fromAccountId = ''acct-1'',
       tr_toAccountId = ''acct-2'', tr_amount = 100, tr_status = COMPLETED,
       tr_otp = Some \<lparr> otp_code = ''550000'', otp_attempts = 0, otp_expiresAt = 302000 \<rparr>,
       tr_createdAt = 1000 \<rparr>"
  by (simp add: completedState_eq)

lemma accounts_verifiedState: "accounts verifiedState = accounts demoState"
  by (simp add: verifiedState_eq)

lemma confirm_verifiedState:
  "fst (confirm verifiedState ''token-demo'' ''transfer-t1'' [] ''r1'' 4000 4001 ''REF-AAAA-BBBB'')
     = Inr (''transfer-t1'',
            \<lparr> rc_id = ''tx-r1'', rc_fromAccount = ''1234567890'', rc_toAccount = ''9876543210'',
              rc_amount = 100, rc_currency = ''USD'', rc_createdAt = 4001,
              rc_reference = ''REF-AAAA-BBBB'' \<rparr>)"
  by (simp add: confirm_def requireAuth_verifiedState)
     (simp add: verifiedState_eq accounts_demoState demoUser_def Let_def makeId_def)

subsection \<open>How each request moves the status of a transfer\<close>

lemma register_transfers: "transfers (snd (register s e p n ru ra nu rt)) = transfers s"
  by (simp add: register_def Let_def split: option.splits)

lemma login_transfers: "transfers (snd (login s e p rt)) = transfers s"
  by (simp add: login_def Let_def split: option.splits)

lemma initiate_status:
  "statusOf (snd (initiate s a f t m r n)) t' = statusOf s t'
   \<or> statusOf (snd (initiate s a f t m r n)) t' = Some PENDING_OTP"
  by (simp add: initiate_def Let_def statusOf_def split: sum.splits option.splits)

lemma sendOtp_status: "statusOf (snd (sendOtp s a t r n)) t' = statusOf s t'"
  by (simp add: sendOtp_def Let_def statusOf_def split: sum.splits option.splits)

lemma verifyOtp_status:
  "statusOf (snd (verifyOtp s a t c n)) t' = statusOf s t'
   \<or> (t' = t \<and> statusOf (snd (verifyOtp s a t c n)) t' = Some VERIFIED
        \<and> fst (verifyOtp s a t c n) = Inr VERIFIED)"
  by (simp add: verifyOtp_def Let_def statusOf_def split: sum.splits option.splits)

lemma confirm_status:
  "statusOf (snd (confirm s a t c r n n2 ref)) t' = statusOf s t'
   \<or> (t' = t \<and> statusOf s t = Some VERIFIED
        \<and> statusOf (snd (confirm s a t c r n n2 ref)) t' = Some COMPLETED)"
  by (simp add: confirm_def Let_def statusOf_def split: sum.splits option.splits)

lemma route_completed:
  assumes "statusOf (snd (routeMockRequest s a req)) t = Some COMPLETED"
    and "statusOf s t \<noteq> Some COMPLETED"
  shows "statusOf s t = Some VERIFIED
         \<and> (\<exists>note rnd now now2 reference. req = Confirm t note rnd now now2 reference)"
proof (cases req)
  case (Register e p n ru ra nu rt)
  with assms show ?thesis by (simp add: statusOf_def register_transfers)
next
  case (Login e p rt)
  with assms show ?thesis by (simp add: statusOf_def login_transfers)
next
  case (Initiate f t' m r n)
  with assms initiate_status [of s a f t' m r n t] show ?thesis by auto
next
  case (SendOtp t' r n)
  with assms show ?thesis by (simp add: sendOtp_status)
next
  case (VerifyOtp t' c n)
  with assms verifyOtp_status [of s a t' c n t] show ?thesis by auto
next
  case (Confirm t' c r n n2 ref)
  with assms confirm_status [of s a t' c r n n2 ref t] show ?thesis by auto
qed (use assms in simp_all)

lemma route_verified:
  assumes "statusOf (snd (routeMockRequest s a req)) t = Some VERIFIED"
    and "statusOf s t \<noteq> Some VERIFIED"
  shows "(\<exists>code now. req = VerifyOtp t code now)
         \<and> fst (routeMockRequest s a req) = Inr (RStatus VERIFIED)"
proof (cases req)
  case (Register e p n ru ra nu rt)
  with assms show ?thesis by (simp add: statusOf_def register_transfers)
next
  case (Login e p rt)
  with assms show ?thesis by (simp add: statusOf_def login_transfers)
next
  case (Initiate f t' m r n)
  with assms initiate_status [of s a f t' m r n t] show ?thesis by auto
next
  case (SendOtp t' r n)
  with assms show ?thesis by (simp add: sendOtp_status)
next
  case (VerifyOtp t' c n)
  with assms verifyOtp_status [of s a t' c n t] show ?thesis by auto
next
  case (Confirm t' c r n n2 ref)
  with assms confirm_status [of s a t' c r n n2 ref t] show ?thesis by auto
qed (use assms in simp_all)

subsection \<open>How each request moves the challenge of a transfer\<close>

lemma verifyOtp_challenge_any:
  assumes "challengeOf s t = Some c"
  shows "challengeOf (snd (verifyOtp s a t' code now)) t =
           Some (if t' = t \<and> fst (verifyOtp s a t' code now) = Inl OTP_INVALID
                 then c\<lparr> otp_attempts := otp_attempts c + 1 \<rparr> else c)"
proof -
  from assms obtain tr where tr: "transfers s t = Some tr" "tr_otp tr = Some c"
    by (auto simp: challengeOf_def split: Option.bind_splits)
  show ?thesis
  proof (cases "t' = t")
    case True
    with tr requireAuth_error [of s a OTP_INVALID] show ?thesis
      by (auto simp: verifyOtp_def challengeOf_def split: sum.split)
  next
    case False
    with tr show ?thesis
      by (simp add: verifyOtp_def challengeOf_def split: sum.split option.split)
  qed
qed

lemma confirm_challenge: "challengeOf (snd (confirm s a t' c r n n2 ref)) t = challengeOf s t"
proof (cases "fst (confirm s a t' c r n n2 ref)")
  case (Inl e)
  then show ?thesis by (simp add: confirm_failure)
next
  case (Inr result)
  from confirm_InrD [OF Inr] obtain u transfer i where
    h: "requireAuth s a = Inr u" "transfers s t' = Some transfer" "tr_status transfer = VERIFIED"
      "findIndex (\<lambda>acct. acct_id acct = tr_fromAccountId transfer \<and> acct_userId acct = u_id u)
         (accounts s) = Some i"
      "tr_amount transfer \<le> acct_balance (accounts s ! i)"
    by blast
  show ?thesis
    using h(2) by (simp add: challengeOf_def confirm_success(2) [OF h])
qed

lemma sendOtp_challenge_other:
  "t' \<noteq> t \<Longrightarrow> challengeOf (snd (sendOtp s a t' r n)) t = challengeOf s t"
  by (auto simp: sendOtp_def challengeOf_def Let_def split: sum.splits option.splits)

lemma initiate_challenge_other:
  "makeId ''transfer'' rnd \<noteq> t \<Longrightarrow> challengeOf (snd (initiate s a f to m rnd n)) t = challengeOf s t"
  by (auto simp: initiate_def challengeOf_def Let_def split: sum.splits option.splits)

lemma route_challenge:
  assumes "challengeOf s t = Some c" and "\<not> replacesChallenge t req"
  shows "challengeOf (snd (routeMockRequest s a req)) t =
           Some (if failedAttempt t (req, fst (routeMockRequest s a req))
                 then c\<lparr> otp_attempts := otp_attempts c + 1 \<rparr> else c)"
proof (cases req)
  case (Register e p n ru ra nu rt)
  with assms show ?thesis by (simp add: challengeOf_def register_transfers)
next
  case (Login e p rt)
  with assms show ?thesis by (simp add: challengeOf_def login_transfers)
next
  case (Initiate f to m rnd n)
  with assms show ?thesis by (simp add: initiate_challenge_other)
next
  case (SendOtp t' r n)
  with assms show ?thesis by (simp add: sendOtp_challenge_other)
next
  case (VerifyOtp t' code n)
  have "fst (verifyOtp s a t' code n) = Inl OTP_INVALID
      \<longleftrightarrow> map_sum id RStatus (fst (verifyOtp s a t' code n)) = Inl OTP_INVALID"
    by (cases "fst (verifyOtp s a t' code n)") simp_all
  with VerifyOtp verifyOtp_challenge_any [OF assms(1), of a t' code n] show ?thesis
    by simp
next
  case (Confirm t' c r n n2 ref)
  with assms show ?thesis by (simp add: confirm_challenge)
qed (use assms in simp_all)

lemma runRequests_challenge:
  assumes "challengeOf s t = Some c"
    and "\<forall>(a, req) \<in> set reqs. \<not> replacesChallenge t req"
  shows "challengeOf (snd (runRequests s reqs)) t =
           Some (c\<lparr> otp_attempts := otp_attempts c
                    + length (filter (failedAttempt t)
                        (zip (map snd reqs) (fst (runRequests s reqs)))) \<rparr>)"
  using assms
proof (induction reqs arbitrary: s c)
  case Nil
  then show ?case by simp
next
  case (Cons ar reqs)
  obtain a req where ar: "ar = (a, req)" by (cases ar)
  let ?s1 = "snd (routeMockRequest s a req)"
  from Cons.prems(2) ar have nr: "\<not> replacesChallenge t req"
    and rest: "\<forall>(a, req) \<in> set reqs. \<not> replacesChallenge t req"
    by auto
  note ch1 = route_challenge [OF Cons.prems(1) nr, of a]
  from Cons.IH [OF ch1 rest] show ?case
    by (simp add: ar split_beta)
qed

lemma requireAuth_transfers_update:
  "requireAuth (s\<lparr> transfers := m \<rparr>) authToken = requireAuth s authToken"
  by (rule requireAuth_frame) simp_all

lemma requireAuth_nobody: "requireAuth demoState ''nobody'' = Inl UNAUTHORIZED"
  by (simp add: requireAuth_def demoState_eq initialState_def)

lemma lockingRun_eval:
  "runRequests sentState lockingRun =
     ([Inl OTP_INVALID, Inr (RUser (summary demoUser)), Inl OTP_INVALID, Inl UNAUTHORIZED,
       Inl OTP_INVALID, Inl OTP_INVALID, Inl OTP_INVALID], lockedState)"
  by (simp add: lockingRun_def lockedState_eq sentState_eq verifyOtp_def me_def
        requireAuth_transfers_update requireAuth_demoState requireAuth_nobody eval_nat_numeral)

lemma route_expiry:
  "map_option otp_expiresAt (challengeOf (snd (routeMockRequest s a req)) t)
     = map_option otp_expiresAt (challengeOf s t)
   \<or> challengeOf (snd (routeMockRequest s a req)) t = None
   \<or> (\<exists>r now. req = SendOtp t r now
         \<and> map_option otp_expiresAt (challengeOf (snd (routeMockRequest s a req)) t)
             = Some (now + 5 * 60 * 1000))"
proof (cases "challengeOf s t")
  case None
  show ?thesis
  proof (cases req)
    case (Register e p n ru ra nu rt)
    with None show ?thesis by (simp add: challengeOf_def register_transfers)
  next
    case (Login e p rt)
    with None show ?thesis by (simp add: challengeOf_def login_transfers)
  next
    case (Initiate f to m rnd n)
    with None show ?thesis
      by (auto simp: initiate_def challengeOf_def Let_def split: sum.splits option.splits)
  next
    case (SendOtp t' r n)
    with None show ?thesis
      by (auto simp: sendOtp_def challengeOf_def Let_def split: sum.splits option.splits)
  next
    case (VerifyOtp t' code n)
    with None show ?thesis
      by (auto simp: verifyOtp_def challengeOf_def split: sum.splits option.splits if_splits
            Option.bind_splits)
  next
    case (Confirm t' c r n n2 ref)
    with None show ?thesis by (simp add: confirm_challenge)
  qed (use None in simp_all)
next
  case (Some c)
  show ?thesis
  proof (cases "replacesChallenge t req")
    case False
    from route_challenge [OF Some False, of a] Some show ?thesis by simp
  next
    case True
    then show ?thesis
    proof (cases req)
      case (Initiate f to m rnd n)
      with True show ?thesis
        by (auto simp: initiate_def challengeOf_def Let_def split: sum.splits option.splits)
    next
      case (SendOtp t' r n)
      with True show ?thesis
        by (auto simp: sendOtp_def challengeOf_def Let_def split: sum.splits option.splits)
    qed simp_all
  qed
qed

subsection \<open>The transaction list\<close>

lemma eveState_eq:
  "eveState = (initialState 0)\<lparr>
     users := users (initialState 0) @
       [\<lparr> u_id = ''user-eve'', u_email = ''eve@bank.test'', u_password = ''secret'',
          u_name = ''Eve'' \<rparr>],
     accounts := accounts (initialState 0) @
       [\<lparr> acct_id = ''acct-eve'', acct_userId = ''user-eve'', acct_name = ''New Checking'',
          acct_number = ''5555555555'', acct_balance = 0, acct_currency = ''USD'' \<rparr>],
     tokens := [''token-eve'' \<mapsto> ''user-eve''] \<rparr>"
  by (simp add: eveState_def register_def initialState_def Let_def makeId_def)

lemma requireAuth_eveState:
  "requireAuth eveState ''token-eve'' =
     Inr \<lparr> u_id = ''user-eve'', u_email = ''eve@bank.test'', u_password = ''secret'',
           u_name = ''Eve'' \<rparr>"
  by (simp add: requireAuth_def eveState_eq initialState_def)

lemma mockTransactions_sorted:
  assumes "mockTransactions s authToken accountId = Inr txs"
  shows "sorted (rev (map tx_createdAt txs))"
proof -
  from assms obtain ys where txs: "txs = sort_key (\<lambda>tx. - tx_createdAt tx) ys"
    by (auto simp: mockTransactions_def Let_def split: sum.splits)
  have "sorted (map (\<lambda>tx. - tx_createdAt tx) txs)"
    unfolding txs by (rule sorted_sort_key)
  then have "sorted (map uminus (map tx_createdAt txs))"
    by (simp add: comp_def)
  then show ?thesis
    by (induction txs) (auto simp: sorted_append)
qed

lemma mockTransactions_own_accounts:
  assumes "mockTransactions s authToken accountId = Inr txs"
    and "accountId = None \<or> accountId = Some []"
    and "requireAuth s authToken = Inr u"
    and "tx \<in> set txs"
  shows "tx \<in> set (transactions s)
         \<and> (\<exists>acct \<in> set (accounts s). acct_id acct = tx_accountId tx \<and> acct_userId acct = u_id u)"
proof -
  from assms(1,3) have txs: "txs = sort_key (\<lambda>tx. - tx_createdAt tx)
      (filter (\<lambda>tx. case accountId of
                       None \<Rightarrow> tx_accountId tx \<in> set (map acct_id
                           (filter (\<lambda>acct. acct_userId acct = u_id u) (accounts s)))
                     | Some a \<Rightarrow>
                         if a \<noteq> [] then tx_accountId tx = a
                         else tx_accountId tx \<in> set (map acct_id
                           (filter (\<lambda>acct. acct_userId acct = u_id u) (accounts s))))
         (transactions s))"
    by (simp add: mockTransactions_def Let_def)
  from assms(4) have "tx \<in> set (transactions s)"
    and "tx_accountId tx \<in> set (map acct_id
           (filter (\<lambda>acct. acct_userId acct = u_id u) (accounts s)))"
    unfolding txs using assms(2) by auto
  then show ?thesis by auto
qed

section \<open>The claims\<close>

text \<open>
  C9: \<^verbatim>\<open>register\<close> with an email that a stored user already has fails with
  \<^verbatim>\<open>EMAIL_IN_USE\<close> and returns the state it was given: no user, no account and no
  session token is added. The request is one that passes the required-field test before
  it, so email and password are not empty.
\<close>

theorem register_email_in_use:
  assumes "email \<noteq> []" and "password \<noteq> []" and "email \<in> u_email ` set (users s)"
  shows "register s email password name rndUser rndAcct number rndToken = (Inl EMAIL_IN_USE, s)"
proof -
  from assms(3) have "find (\<lambda>u. u_email u = email) (users s) \<noteq> None"
    by (auto simp: find_None_iff)
  with assms(1,2) show ?thesis
    by (auto simp: register_def)
qed

text \<open>C9 at the seeded state: the demo customer's email is taken.\<close>

theorem register_email_in_use_witness:
  "register (initialState 0) ''demo@bank.test'' ''hunter2'' ''Mallory'' ''m'' ''m'' ''1111111111'' ''m''
     = (Inl EMAIL_IN_USE, initialState 0)"
  by (rule register_email_in_use) (simp_all add: initialState_def)

text \<open>
  C5, as stated, fails where the balance is zero: the account that \<^verbatim>\<open>register\<close> creates
  has the balance 0, and an amount equal to it is the number 0, which the required-field
  test refuses with \<^verbatim>\<open>VALIDATION\<close>. The amount equal to the balance does not succeed.
\<close>

theorem initiate_zero_balance_counterexample:
  "map (\<lambda>a. (acct_id a, acct_userId a, acct_balance a))
       (filter (\<lambda>a. acct_id a = ''acct-eve'') (accounts eveState))
     = [(''acct-eve'', ''user-eve'', 0)]
   \<and> initiate eveState ''token-eve'' ''acct-eve'' ''acct-1'' 0 ''t1'' 1000
       = (Inl VALIDATION, eveState)"
proof -
  have "initiate eveState ''token-eve'' ''acct-eve'' ''acct-1'' 0 ''t1'' 1000
       = (Inl VALIDATION, eveState)"
    by (simp add: initiate_def requireAuth_eveState)
  moreover have "map (\<lambda>a. (acct_id a, acct_userId a, acct_balance a))
       (filter (\<lambda>a. acct_id a = ''acct-eve'') (accounts eveState))
     = [(''acct-eve'', ''user-eve'', 0)]"
    by (simp add: eveState_eq initialState_def)
  ultimately show ?thesis by blast
qed

text \<open>
  C5, amended: \<^verbatim>\<open>initiate\<close> fails with \<^verbatim>\<open>INSUFFICIENT_FUNDS\<close> exactly when the request
  reaches the balance test (the caller is authenticated, the fields are present, the
  source account resolves for the caller) and the amount is strictly greater than the
  balance of the source account. On that failure the state, and with it the transfers map,
  is the one given. An amount other than zero that equals the balance passes the test,
  and the transfer is created in \<^verbatim>\<open>PENDING_OTP\<close>; the amount zero is refused with
  \<^verbatim>\<open>VALIDATION\<close>, also when the balance is zero.
\<close>

theorem initiate_insufficient_funds:
  "(fst (initiate s authToken fromAccountId toAccountId amount rnd now) = Inl INSUFFICIENT_FUNDS
      \<longleftrightarrow> (\<exists>u fromAccount. requireAuth s authToken = Inr u
             \<and> fromAccountId \<noteq> [] \<and> toAccountId \<noteq> [] \<and> amount \<noteq> 0
             \<and> find (\<lambda>acct. acct_id acct = fromAccountId \<and> acct_userId acct = u_id u) (accounts s)
                 = Some fromAccount
             \<and> amount > acct_balance fromAccount))
   \<and> (fst (initiate s authToken fromAccountId toAccountId amount rnd now) = Inl INSUFFICIENT_FUNDS
      \<longrightarrow> snd (initiate s authToken fromAccountId toAccountId amount rnd now) = s)
   \<and> (\<forall>u fromAccount. requireAuth s authToken = Inr u
         \<and> fromAccountId \<noteq> [] \<and> toAccountId \<noteq> [] \<and> amount \<noteq> 0
         \<and> find (\<lambda>acct. acct_id acct = fromAccountId \<and> acct_userId acct = u_id u) (accounts s)
             = Some fromAccount
         \<and> amount = acct_balance fromAccount
       \<longrightarrow> fst (initiate s authToken fromAccountId toAccountId amount rnd now)
             = Inr (makeId ''transfer'' rnd, PENDING_OTP)
           \<and> statusOf (snd (initiate s authToken fromAccountId toAccountId amount rnd now))
               (makeId ''transfer'' rnd) = Some PENDING_OTP)
   \<and> (\<forall>u. requireAuth s authToken = Inr u \<and> amount = 0
       \<longrightarrow> initiate s authToken fromAccountId toAccountId amount rnd now = (Inl VALIDATION, s))"
  by (auto simp: initiate_def Let_def statusOf_def split: sum.splits option.splits
        dest: requireAuth_error)

text \<open>
  C5, amended, at the demo customer's checking account, whose balance is 4280.75: 5000 is refused
  and nothing changes, 4280.75 is accepted.
\<close>

theorem initiate_insufficient_funds_witness:
  "initiate demoState ''token-demo'' ''acct-1'' ''acct-2'' 5000 ''t1'' 1000
     = (Inl INSUFFICIENT_FUNDS, demoState)
   \<and> acct_balance (hd (accounts demoState)) = 428075 / 100
   \<and> fst (initiate demoState ''token-demo'' ''acct-1'' ''acct-2'' (428075 / 100) ''t1'' 1000)
       = Inr (''transfer-t1'', PENDING_OTP)"
proof -
  have bal: "acct_balance (hd (accounts demoState)) = 428075 / 100"
    by (simp add: demoState_eq initialState_def)
  have "fst (initiate demoState ''token-demo'' ''acct-1'' ''acct-2'' 5000 ''t1'' 1000)
          = Inl INSUFFICIENT_FUNDS"
    using initiate_insufficient_funds [of demoState "''token-demo''" "''acct-1''" "''acct-2''" 5000 "''t1''" 1000]
      requireAuth_demoState find_acct1 bal by simp
  moreover from this have "snd (initiate demoState ''token-demo'' ''acct-1'' ''acct-2'' 5000 ''t1'' 1000)
          = demoState"
    using initiate_insufficient_funds [of demoState "''token-demo''" "''acct-1''" "''acct-2''" 5000 "''t1''" 1000]
    by blast
  moreover have "fst (initiate demoState ''token-demo'' ''acct-1'' ''acct-2'' (428075 / 100) ''t1'' 1000)
       = Inr (''transfer-t1'', PENDING_OTP)"
    using initiate_insufficient_funds [of demoState "''token-demo''" "''acct-1''" "''acct-2''" "428075 / 100" "''t1''" 1000]
      requireAuth_demoState find_acct1 bal by (simp add: makeId_def)
  ultimately show ?thesis using bal by (simp add: prod_eq_iff)
qed

text \<open>
  C10, as stated, fails at the amount zero: the required-field test \<^verbatim>\<open>!amount\<close> is true
  for the number 0, so \<^verbatim>\<open>initiate\<close> fails with \<^verbatim>\<open>VALIDATION\<close> and creates no transfer,
  for an authenticated caller with a valid owned source account.
\<close>

theorem initiate_zero_amount_counterexample:
  "initiate demoState ''token-demo'' ''acct-1'' ''acct-2'' 0 ''t1'' 1000 = (Inl VALIDATION, demoState)"
  by (simp add: initiate_def requireAuth_demoState)

text \<open>
  C10, amended: \<^verbatim>\<open>initiate\<close> has no test of the amount's sign. For an authenticated
  caller with an owned source account and a destination id, a negative amount that does
  not exceed the source balance creates the transfer in \<^verbatim>\<open>PENDING_OTP\<close> with that
  negative amount. (The amount zero is refused by the required-field test.)
\<close>

theorem initiate_negative_amount:
  assumes "requireAuth s authToken = Inr u"
    and "fromAccountId \<noteq> []" and "toAccountId \<noteq> []"
    and "find (\<lambda>acct. acct_id acct = fromAccountId \<and> acct_userId acct = u_id u) (accounts s)
           = Some fromAccount"
    and "amount < 0" and "amount \<le> acct_balance fromAccount"
  shows "initiate s authToken fromAccountId toAccountId amount rnd now =
           (Inr (makeId ''transfer'' rnd, PENDING_OTP),
            s\<lparr> transfers := (transfers s)(makeId ''transfer'' rnd \<mapsto>
                 \<lparr> tr_id = makeId ''transfer'' rnd, tr_userId = u_id u,
                   tr_fromAccountId = fromAccountId, tr_toAccountId = toAccountId,
                   tr_amount = amount, tr_status = PENDING_OTP, tr_otp = None,
                   tr_createdAt = now \<rparr>) \<rparr>)"
  using assms by (simp add: initiate_def Let_def)

text \<open>C10, amended, at a transfer of minus 50 from the demo customer's checking account.\<close>

theorem initiate_negative_amount_witness:
  "statusOf (snd (initiate demoState ''token-demo'' ''acct-1'' ''acct-2'' (- 50) ''t1'' 1000))
     ''transfer-t1'' = Some PENDING_OTP
   \<and> fst (initiate demoState ''token-demo'' ''acct-1'' ''acct-2'' (- 50) ''t1'' 1000)
       = Inr (''transfer-t1'', PENDING_OTP)"
proof -
  have bal: "- 50 \<le> acct_balance (hd (accounts demoState))"
    by (simp add: demoState_eq initialState_def)
  show ?thesis
    using initiate_negative_amount [OF requireAuth_demoState _ _ find_acct1 _ bal,
        of "''acct-2''" "''t1''" 1000]
    by (simp add: statusOf_def makeId_def)
qed

text \<open>
  C3, as stated, fails at the expiry instant itself: the test is
  \<^verbatim>\<open>expiresAt < now\<close>, so a call at exactly \<open>sentAt + 5 minutes\<close> with the stored code
  is verified.
\<close>

theorem otp_expiry_counterexample:
  "challengeOf sentState ''transfer-t1''
     = Some \<lparr> otp_code = ''550000'', otp_attempts = 0, otp_expiresAt = 2000 + 5 * 60 * 1000 \<rparr>
   \<and> fst (verifyOtp sentState ''token-demo'' ''transfer-t1'' ''550000'' (2000 + 5 * 60 * 1000))
       = Inr VERIFIED"
proof -
  have "fst (verifyOtp sentState ''token-demo'' ''transfer-t1'' ''550000'' (2000 + 5 * 60 * 1000))
       = Inr VERIFIED"
    by (simp add: verifyOtp_def requireAuth_sentState) (simp add: sentState_eq)
  moreover have "challengeOf sentState ''transfer-t1''
     = Some \<lparr> otp_code = ''550000'', otp_attempts = 0, otp_expiresAt = 2000 + 5 * 60 * 1000 \<rparr>"
    by (simp add: challengeOf_def sentState_eq)
  ultimately show ?thesis by blast
qed

text \<open>
  C3, amended: \<^verbatim>\<open>sendOtp\<close> sets the expiry of the challenge to its current time plus
  exactly 5 minutes, and no other request changes the expiry of a challenge. For every
  transfer with a challenge, whatever its attempt count, \<^verbatim>\<open>verifyOtp\<close> by the
  authenticated caller fails with \<^verbatim>\<open>OTP_EXPIRED\<close> exactly when it is called strictly
  after the expiry instant, whatever code is submitted, the stored one included, and the
  failure leaves the state as it is. At the expiry instant itself the call is not expired.
\<close>

theorem otp_expiry:
  assumes "requireAuth s authToken = Inr u" and "transfers s transferId = Some transfer"
  shows "map_option otp_expiresAt (challengeOf (snd (sendOtp s authToken transferId r now)) transferId)
           = Some (now + 5 * 60 * 1000)
         \<and> (\<forall>challenge code later. tr_otp transfer = Some challenge \<longrightarrow>
               (fst (verifyOtp s authToken transferId code later) = Inl OTP_EXPIRED
                  \<longleftrightarrow> otp_expiresAt challenge < later)
             \<and> (otp_expiresAt challenge < later \<longrightarrow>
                  verifyOtp s authToken transferId code later = (Inl OTP_EXPIRED, s)))
         \<and> (\<forall>code later.
               fst (verifyOtp (snd (sendOtp s authToken transferId r now)) authToken transferId
                      code later) = Inl OTP_EXPIRED
                 \<longleftrightarrow> now + 5 * 60 * 1000 < later)
         \<and> (\<forall>a req t.
               map_option otp_expiresAt (challengeOf (snd (routeMockRequest s a req)) t)
                 = map_option otp_expiresAt (challengeOf s t)
             \<or> challengeOf (snd (routeMockRequest s a req)) t = None
             \<or> (\<exists>r now. req = SendOtp t r now
                   \<and> map_option otp_expiresAt (challengeOf (snd (routeMockRequest s a req)) t)
                       = Some (now + 5 * 60 * 1000)))"
proof -
  let ?s' = "snd (sendOtp s authToken transferId r now)"
  have auth: "requireAuth ?s' authToken = Inr u"
    using assms(1) by (simp add: requireAuth_frame [of ?s' s] sendOtp_frame)
  have tr: "transfers ?s' transferId =
      Some (transfer\<lparr> tr_otp := Some \<lparr> otp_code = otpCode r, otp_attempts = 0,
                                        otp_expiresAt = now + 5 * 60 * 1000 \<rparr> \<rparr>)"
    by (simp add: sendOtp_success [OF assms])
  have set: "map_option otp_expiresAt (challengeOf ?s' transferId) = Some (now + 5 * 60 * 1000)"
    using tr by (simp add: challengeOf_def)
  have general: "\<forall>challenge code later. tr_otp transfer = Some challenge \<longrightarrow>
               (fst (verifyOtp s authToken transferId code later) = Inl OTP_EXPIRED
                  \<longleftrightarrow> otp_expiresAt challenge < later)
             \<and> (otp_expiresAt challenge < later \<longrightarrow>
                  verifyOtp s authToken transferId code later = (Inl OTP_EXPIRED, s))"
    using assms by (simp add: verifyOtp_def)
  have fresh: "\<forall>code later.
               fst (verifyOtp ?s' authToken transferId code later) = Inl OTP_EXPIRED
                 \<longleftrightarrow> now + 5 * 60 * 1000 < later"
    using auth tr by (simp add: verifyOtp_def)
  from set general fresh route_expiry show ?thesis by blast
qed

text \<open>
  C3, amended, on the session: the code sent at 2000 expires at 302000 and is refused at
  302001, on the fresh challenge and on the locked one alike.
\<close>

theorem otp_expiry_witness:
  "map_option otp_expiresAt (challengeOf sentState ''transfer-t1'') = Some 302000
   \<and> verifyOtp sentState ''token-demo'' ''transfer-t1'' ''550000'' 302001
       = (Inl OTP_EXPIRED, sentState)
   \<and> map_option otp_attempts (challengeOf lockedState ''transfer-t1'') = Some 5
   \<and> verifyOtp lockedState ''token-demo'' ''transfer-t1'' ''550000'' 302001
       = (Inl OTP_EXPIRED, lockedState)"
proof -
  have auth: "requireAuth pendingState ''token-demo'' = Inr demoUser"
    by (simp add: pendingState_eq requireAuth_frame [of _ demoState] requireAuth_demoState)
  have tr: "transfers pendingState ''transfer-t1'' = Some
     \<lparr> tr_id = ''transfer-t1'', tr_userId = ''user-1'', tr_fromAccountId = ''acct-1'',
       tr_toAccountId = ''acct-2'', tr_amount = 100, tr_status = PENDING_OTP, tr_otp = None,
       tr_createdAt = 1000 \<rparr>"
    by (simp add: pendingState_eq)
  have set: "map_option otp_expiresAt (challengeOf sentState ''transfer-t1'') = Some 302000"
    using otp_expiry [OF auth tr, of "1 / 2" 2000, THEN conjunct1]
    unfolding sentState_def [symmetric] by simp
  have trs: "transfers sentState ''transfer-t1'' = Some
     \<lparr> tr_id = ''transfer-t1'', tr_userId = ''user-1'', tr_fromAccountId = ''acct-1'',
       tr_toAccountId = ''acct-2'', tr_amount = 100, tr_status = PENDING_OTP,
       tr_otp = Some \<lparr> otp_code = ''550000'', otp_attempts = 0, otp_expiresAt = 302000 \<rparr>,
       tr_createdAt = 1000 \<rparr>"
    by (simp add: sentState_eq)
  have trl: "transfers lockedState ''transfer-t1'' = Some
     \<lparr> tr_id = ''transfer-t1'', tr_userId = ''user-1'', tr_fromAccountId = ''acct-1'',
       tr_toAccountId = ''acct-2'', tr_amount = 100, tr_status = PENDING_OTP,
       tr_otp = Some \<lparr> otp_code = ''550000'', otp_attempts = 5, otp_expiresAt = 302000 \<rparr>,
       tr_createdAt = 1000 \<rparr>"
    by (simp add: lockedState_eq)
  have sent: "verifyOtp sentState ''token-demo'' ''transfer-t1'' ''550000'' 302001
       = (Inl OTP_EXPIRED, sentState)"
    using otp_expiry [OF requireAuth_sentState trs, THEN conjunct2, THEN conjunct1, rule_format,
        of "\<lparr> otp_code = ''550000'', otp_attempts = 0, otp_expiresAt = 302000 \<rparr>" "''550000''" 302001,
        THEN conjunct2]
    by simp
  have locked: "verifyOtp lockedState ''token-demo'' ''transfer-t1'' ''550000'' 302001
       = (Inl OTP_EXPIRED, lockedState)"
    using otp_expiry [OF requireAuth_lockedState trl, THEN conjunct2, THEN conjunct1, rule_format,
        of "\<lparr> otp_code = ''550000'', otp_attempts = 5, otp_expiresAt = 302000 \<rparr>" "''550000''" 302001,
        THEN conjunct2]
    by simp
  have att: "map_option otp_attempts (challengeOf lockedState ''transfer-t1'') = Some 5"
    by (simp add: challengeOf_def trl)
  from set sent att locked show ?thesis by blast
qed

text \<open>
  C4: take a transfer with a challenge and any run of requests after it in which the
  challenge is not replaced. Once five \<^verbatim>\<open>verifyOtp\<close> calls for the transfer have
  failed with \<^verbatim>\<open>OTP_INVALID\<close>, a further \<^verbatim>\<open>verifyOtp\<close> by an authenticated caller
  fails with \<^verbatim>\<open>OTP_LOCKED\<close> whatever code it submits, the stored code included, and
  leaves the state as it is, so the lock test precedes the comparison of the code. The
  only test before it is the expiry test of the same contract: a call after the expiry
  instant fails with \<^verbatim>\<open>OTP_EXPIRED\<close>.
\<close>

theorem otp_locked:
  assumes "challengeOf s transferId = Some c"
    and "runRequests s reqs = (rs, s')"
    and "\<forall>(a, req) \<in> set reqs. \<not> replacesChallenge transferId req"
    and "5 \<le> length (filter (failedAttempt transferId) (zip (map snd reqs) rs))"
    and "requireAuth s' authToken = Inr u"
  shows "verifyOtp s' authToken transferId code now =
           (if otp_expiresAt c < now then (Inl OTP_EXPIRED, s') else (Inl OTP_LOCKED, s'))"
proof -
  have "challengeOf s' transferId = Some (c\<lparr> otp_attempts := otp_attempts c
          + length (filter (failedAttempt transferId) (zip (map snd reqs) rs)) \<rparr>)"
    using runRequests_challenge [OF assms(1,3)] assms(2) by simp
  then obtain t where t: "transfers s' transferId = Some t"
    and c: "tr_otp t = Some (c\<lparr> otp_attempts := otp_attempts c
          + length (filter (failedAttempt transferId) (zip (map snd reqs) rs)) \<rparr>)"
    by (auto simp: challengeOf_def split: Option.bind_splits)
  show ?thesis
    using assms(4,5) t c by (simp add: verifyOtp_def)
qed

text \<open>
  C4 on the session: after the five wrong codes of \<open>lockingRun\<close> the right code is
  answered \<^verbatim>\<open>OTP_LOCKED\<close> at time 4000, and \<^verbatim>\<open>OTP_EXPIRED\<close> after the expiry.
\<close>

theorem otp_locked_witness:
  "fst (runRequests sentState lockingRun) =
     [Inl OTP_INVALID, Inr (RUser (summary demoUser)), Inl OTP_INVALID, Inl UNAUTHORIZED,
      Inl OTP_INVALID, Inl OTP_INVALID, Inl OTP_INVALID]
   \<and> verifyOtp lockedState ''token-demo'' ''transfer-t1'' ''550000'' 4000
       = (Inl OTP_LOCKED, lockedState)
   \<and> verifyOtp lockedState ''token-demo'' ''transfer-t1'' ''550000'' 302001
       = (Inl OTP_EXPIRED, lockedState)"
proof -
  have ch: "challengeOf sentState ''transfer-t1'' =
      Some \<lparr> otp_code = ''550000'', otp_attempts = 0, otp_expiresAt = 302000 \<rparr>"
    by (simp add: challengeOf_def sentState_eq)
  have nr: "\<forall>(a, req) \<in> set lockingRun. \<not> replacesChallenge ''transfer-t1'' req"
    by (simp add: lockingRun_def)
  have five: "5 \<le> length (filter (failedAttempt ''transfer-t1'')
      (zip (map snd lockingRun)
        [Inl OTP_INVALID, Inr (RUser (summary demoUser)), Inl OTP_INVALID, Inl UNAUTHORIZED,
         Inl OTP_INVALID, Inl OTP_INVALID, Inl OTP_INVALID]))"
    by (simp add: lockingRun_def)
  note inst = otp_locked [OF ch lockingRun_eval nr five requireAuth_lockedState]
  have "verifyOtp lockedState ''token-demo'' ''transfer-t1'' ''550000'' 4000
       = (Inl OTP_LOCKED, lockedState)"
    using inst [where now = 4000 and code = "''550000''"] by simp
  moreover have "verifyOtp lockedState ''token-demo'' ''transfer-t1'' ''550000'' 302001
       = (Inl OTP_EXPIRED, lockedState)"
    using inst [where now = 302001 and code = "''550000''"] by simp
  ultimately show ?thesis by (simp add: lockingRun_eval)
qed

text \<open>
  C8: for an existing transfer \<open>transfer\<close>, whatever its status and its previous
  challenge, \<^verbatim>\<open>sendOtp\<close> succeeds for the authenticated caller and replaces the
  challenge by a code of six decimal digits, the attempt count 0 and the expiry 5
  minutes from now, changing nothing else; the new code is accepted until that expiry,
  so a locked challenge is usable again.
\<close>

theorem sendOtp_resets_challenge:
  assumes "requireAuth s authToken = Inr u" and "transfers s transferId = Some transfer"
    and "0 \<le> r" and "r < 1"
  shows "sendOtp s authToken transferId r now =
           (Inr (otpCode r),
            s\<lparr> transfers := (transfers s)(transferId \<mapsto>
                 transfer\<lparr> tr_otp := Some \<lparr> otp_code = otpCode r, otp_attempts = 0,
                                           otp_expiresAt = now + 5 * 60 * 1000 \<rparr> \<rparr>) \<rparr>)
         \<and> length (otpCode r) = 6 \<and> list_all isDigit (otpCode r)
         \<and> (\<forall>later. later \<le> now + 5 * 60 * 1000 \<longrightarrow>
               fst (verifyOtp (snd (sendOtp s authToken transferId r now)) authToken transferId
                      (otpCode r) later) = Inr VERIFIED)"
proof -
  let ?s' = "snd (sendOtp s authToken transferId r now)"
  have auth: "requireAuth ?s' authToken = Inr u"
    using assms(1) by (simp add: requireAuth_frame [of ?s' s] sendOtp_frame)
  have tr: "transfers ?s' transferId =
      Some (transfer\<lparr> tr_otp := Some \<lparr> otp_code = otpCode r, otp_attempts = 0,
                                        otp_expiresAt = now + 5 * 60 * 1000 \<rparr> \<rparr>)"
    by (simp add: sendOtp_success [OF assms(1,2)])
  have "\<forall>later. later \<le> now + 5 * 60 * 1000 \<longrightarrow>
          fst (verifyOtp ?s' authToken transferId (otpCode r) later) = Inr VERIFIED"
    using auth tr by (simp add: verifyOtp_def)
  moreover have "list_all isDigit (otpCode r)"
    using otpCode_six_digits(2) [OF assms(3,4)] by (simp add: list_all_iff)
  ultimately show ?thesis
    using sendOtp_success [OF assms(1,2)] otpCode_six_digits(1) [OF assms(3,4)] by simp
qed

text \<open>
  C8 on the session: the challenge locked by five wrong codes, and expired at time
  400000, is replaced and the new code verifies.
\<close>

theorem sendOtp_resets_challenge_witness:
  "challengeOf lockedState ''transfer-t1''
     = Some \<lparr> otp_code = ''550000'', otp_attempts = 5, otp_expiresAt = 302000 \<rparr>
   \<and> fst (sendOtp lockedState ''token-demo'' ''transfer-t1'' (1 / 4) 400000) = Inr ''325000''
   \<and> challengeOf (snd (sendOtp lockedState ''token-demo'' ''transfer-t1'' (1 / 4) 400000)) ''transfer-t1''
       = Some \<lparr> otp_code = ''325000'', otp_attempts = 0, otp_expiresAt = 700000 \<rparr>
   \<and> fst (verifyOtp (snd (sendOtp lockedState ''token-demo'' ''transfer-t1'' (1 / 4) 400000))
            ''token-demo'' ''transfer-t1'' ''325000'' 400001) = Inr VERIFIED"
proof -
  have tr: "transfers lockedState ''transfer-t1'' = Some
     \<lparr> tr_id = ''transfer-t1'', tr_userId = ''user-1'', tr_fromAccountId = ''acct-1'',
       tr_toAccountId = ''acct-2'', tr_amount = 100, tr_status = PENDING_OTP,
       tr_otp = Some \<lparr> otp_code = ''550000'', otp_attempts = 5, otp_expiresAt = 302000 \<rparr>,
       tr_createdAt = 1000 \<rparr>"
    by (simp add: lockedState_eq)
  have r: "(0::rat) \<le> 1 / 4" "(1::rat) / 4 < 1" by simp_all
  note inst = sendOtp_resets_challenge [OF requireAuth_lockedState tr r, of 400000]
  have ver: "fst (verifyOtp (snd (sendOtp lockedState ''token-demo'' ''transfer-t1'' (1 / 4) 400000))
            ''token-demo'' ''transfer-t1'' ''325000'' 400001) = Inr VERIFIED"
    using inst [unfolded otpCode_quarter, THEN conjunct2, THEN conjunct2, THEN conjunct2,
        rule_format, of 400001] by simp
  have snt: "sendOtp lockedState ''token-demo'' ''transfer-t1'' (1 / 4) 400000 =
           (Inr ''325000'',
            lockedState\<lparr> transfers := (transfers lockedState)(''transfer-t1'' \<mapsto>
                 \<lparr> tr_id = ''transfer-t1'', tr_userId = ''user-1'', tr_fromAccountId = ''acct-1'',
       tr_toAccountId = ''acct-2'', tr_amount = 100, tr_status = PENDING_OTP,
       tr_otp = Some \<lparr> otp_code = ''325000'', otp_attempts = 0, otp_expiresAt = 700000 \<rparr>,
       tr_createdAt = 1000 \<rparr>) \<rparr>)"
    using inst [unfolded otpCode_quarter, THEN conjunct1] by simp
  show ?thesis
    using ver by (simp add: snt challengeOf_def tr)
qed

text \<open>
  C2, as stated, fails in two ways. When source and destination resolve to the same
  account the debit and the credit fall on one object: a verified transfer of 100 from
  the checking account to itself is confirmed and the balance of that account is what it
  was, not 100 less. And the two stored results are rounded: a confirmed transfer of
  \<^verbatim>\<open>0.03\<close> from checking (4280.75) to savings (13250.35) leaves 4280.72 and
  13250.380000000001 as doubles, the source is not less by exactly the amount, the
  destination not more by exactly the amount, and the sum of the two balances has changed.
\<close>

theorem confirm_zero_sum_counterexample:
  "map_option (\<lambda>t. (tr_fromAccountId t, tr_toAccountId t, tr_amount t, tr_status t))
       (transfers selfVerifiedState ''transfer-t2'')
     = Some (''acct-1'', ''acct-1'', 100, VERIFIED)
   \<and> map (\<lambda>a. (acct_id a, acct_balance a)) (accounts selfVerifiedState)
       = [(''acct-1'', 428075 / 100), (''acct-2'', 7284456948550861 / 549755813888)]
   \<and> statusOf (snd (confirm selfVerifiedState ''token-demo'' ''transfer-t2'' [] ''r2'' 4000 4001
                      ''REF-AAAA-BBBB'')) ''transfer-t2'' = Some COMPLETED
   \<and> map (\<lambda>a. (acct_id a, acct_balance a))
         (accounts (snd (confirm selfVerifiedState ''token-demo'' ''transfer-t2'' [] ''r2'' 4000 4001
                           ''REF-AAAA-BBBB'')))
       = [(''acct-1'', 428075 / 100), (''acct-2'', 7284456948550861 / 549755813888)]
   \<and> map_option (\<lambda>t. (tr_fromAccountId t, tr_toAccountId t, tr_amount t, tr_status t))
       (transfers centsVerifiedState ''transfer-t3'')
     = Some (''acct-1'', ''acct-2'', 1080863910568919 / 36028797018963968, VERIFIED)
   \<and> map (\<lambda>a. (acct_id a, acct_balance a)) (accounts centsVerifiedState)
       = [(''acct-1'', 428075 / 100), (''acct-2'', 7284456948550861 / 549755813888)]
   \<and> statusOf (snd (confirm centsVerifiedState ''token-demo'' ''transfer-t3'' [] ''r3'' 4000 4001
                      ''REF-AAAA-BBBB'')) ''transfer-t3'' = Some COMPLETED
   \<and> map (\<lambda>a. (acct_id a, acct_balance a))
         (accounts (snd (confirm centsVerifiedState ''token-demo'' ''transfer-t3'' [] ''r3'' 4000 4001
                           ''REF-AAAA-BBBB'')))
       = [(''acct-1'', 4706701415253279 / 1099511627776),
          (''acct-2'', 3642236720612639 / 274877906944)]
   \<and> (4706701415253279 / 1099511627776 :: rat)
       \<noteq> 428075 / 100 - 1080863910568919 / 36028797018963968
   \<and> (3642236720612639 / 274877906944 :: rat)
       \<noteq> 7284456948550861 / 549755813888 + 1080863910568919 / 36028797018963968
   \<and> (4706701415253279 / 1099511627776 + 3642236720612639 / 274877906944 :: rat)
       \<noteq> 428075 / 100 + 7284456948550861 / 549755813888"
proof -
  have self: "map_option (\<lambda>t. (tr_fromAccountId t, tr_toAccountId t, tr_amount t, tr_status t))
       (transfers selfVerifiedState ''transfer-t2'')
     = Some (''acct-1'', ''acct-1'', 100, VERIFIED)
   \<and> map (\<lambda>a. (acct_id a, acct_balance a)) (accounts selfVerifiedState)
       = [(''acct-1'', 428075 / 100), (''acct-2'', 7284456948550861 / 549755813888)]
   \<and> statusOf (snd (confirm selfVerifiedState ''token-demo'' ''transfer-t2'' [] ''r2'' 4000 4001
                      ''REF-AAAA-BBBB'')) ''transfer-t2'' = Some COMPLETED
   \<and> map (\<lambda>a. (acct_id a, acct_balance a))
         (accounts (snd (confirm selfVerifiedState ''token-demo'' ''transfer-t2'' [] ''r2'' 4000 4001
                           ''REF-AAAA-BBBB'')))
       = [(''acct-1'', 428075 / 100), (''acct-2'', 7284456948550861 / 549755813888)]"
    by (simp add: confirm_def requireAuth_selfVerifiedState)
       (simp add: selfVerifiedState_eq accounts_demoState demoUser_def statusOf_def double_eval)
  have cents: "map_option (\<lambda>t. (tr_fromAccountId t, tr_toAccountId t, tr_amount t, tr_status t))
       (transfers centsVerifiedState ''transfer-t3'')
     = Some (''acct-1'', ''acct-2'', 1080863910568919 / 36028797018963968, VERIFIED)
   \<and> map (\<lambda>a. (acct_id a, acct_balance a)) (accounts centsVerifiedState)
       = [(''acct-1'', 428075 / 100), (''acct-2'', 7284456948550861 / 549755813888)]
   \<and> statusOf (snd (confirm centsVerifiedState ''token-demo'' ''transfer-t3'' [] ''r3'' 4000 4001
                      ''REF-AAAA-BBBB'')) ''transfer-t3'' = Some COMPLETED
   \<and> map (\<lambda>a. (acct_id a, acct_balance a))
         (accounts (snd (confirm centsVerifiedState ''token-demo'' ''transfer-t3'' [] ''r3'' 4000 4001
                           ''REF-AAAA-BBBB'')))
       = [(''acct-1'', 4706701415253279 / 1099511627776),
          (''acct-2'', 3642236720612639 / 274877906944)]"
    by (simp add: confirm_def requireAuth_centsVerifiedState)
       (simp add: centsVerifiedState_eq accounts_demoState demoUser_def statusOf_def double_eval)
  have ne: "(4706701415253279 / 1099511627776 :: rat)
       \<noteq> 428075 / 100 - 1080863910568919 / 36028797018963968
   \<and> (3642236720612639 / 274877906944 :: rat)
       \<noteq> 7284456948550861 / 549755813888 + 1080863910568919 / 36028797018963968
   \<and> (4706701415253279 / 1099511627776 + 3642236720612639 / 274877906944 :: rat)
       \<noteq> 428075 / 100 + 7284456948550861 / 549755813888"
    by simp
  from self cents ne show ?thesis by blast
qed

text \<open>
  C2, amended: for a confirmed transfer whose source resolves to the account at position
  \<open>i\<close> and whose destination resolves to the account at position \<open>j\<close>: when the two
  are different accounts, the balance of the source becomes the double result of balance
  minus amount and the balance of the destination the double result of balance plus
  amount; when they are the same account its balance becomes the double result of
  adding the amount to the debited balance. No other account changes. Whenever the two
  double results are exact, as they are when the two balances and the amount are whole
  numbers and the results stay below \<open>2^53\<close> in magnitude, the source has decreased by
  exactly the amount, the destination has increased by exactly the amount and the sum of
  the two balances is unchanged.
\<close>

theorem confirm_balances:
  assumes "requireAuth s authToken = Inr u" and "transfers s transferId = Some transfer"
    and "findIndex (\<lambda>acct. acct_id acct = tr_fromAccountId transfer \<and> acct_userId acct = u_id u)
           (accounts s) = Some i"
    and "findIndex (\<lambda>acct. acct_id acct = tr_toAccountId transfer) (accounts s) = Some j"
    and "fst (confirm s authToken transferId note rnd now now2 reference) = Inr result"
  shows "(let s' = snd (confirm s authToken transferId note rnd now now2 reference);
              debit = doubleSub (acct_balance (accounts s ! i)) (tr_amount transfer);
              credit = doubleAdd (acct_balance (accounts s ! j)) (tr_amount transfer)
          in (i \<noteq> j \<longrightarrow>
                acct_balance (accounts s' ! i) = debit \<and> acct_balance (accounts s' ! j) = credit)
           \<and> (i = j \<longrightarrow> acct_balance (accounts s' ! i) = doubleAdd debit (tr_amount transfer))
           \<and> length (accounts s') = length (accounts s)
           \<and> (\<forall>k. k \<noteq> i \<and> k \<noteq> j \<longrightarrow> accounts s' ! k = accounts s ! k)
           \<and> (i \<noteq> j \<and> debit = acct_balance (accounts s ! i) - tr_amount transfer
                 \<and> credit = acct_balance (accounts s ! j) + tr_amount transfer \<longrightarrow>
                acct_balance (accounts s' ! i) = acct_balance (accounts s ! i) - tr_amount transfer
              \<and> acct_balance (accounts s' ! j) = acct_balance (accounts s ! j) + tr_amount transfer
              \<and> acct_balance (accounts s' ! i) + acct_balance (accounts s' ! j)
                  = acct_balance (accounts s ! i) + acct_balance (accounts s ! j))
           \<and> (\<forall>a b c. i \<noteq> j \<and> acct_balance (accounts s ! i) = of_int a
                 \<and> acct_balance (accounts s ! j) = of_int b \<and> tr_amount transfer = of_int c
                 \<and> \<bar>a - c\<bar> < 2 ^ 53 \<and> \<bar>b + c\<bar> < 2 ^ 53 \<longrightarrow>
                acct_balance (accounts s' ! i) = of_int (a - c)
              \<and> acct_balance (accounts s' ! j) = of_int (b + c)
              \<and> acct_balance (accounts s' ! i) + acct_balance (accounts s' ! j)
                  = acct_balance (accounts s ! i) + acct_balance (accounts s ! j)))"
proof -
  from confirm_InrD [OF assms(5)] assms(1-3)
  have st: "tr_status transfer = VERIFIED"
    and le: "tr_amount transfer \<le> acct_balance (accounts s ! i)"
    by auto
  from findIndex_SomeD [OF assms(3)] have i: "i < length (accounts s)" by simp
  from findIndex_SomeD [OF assms(4)] have j: "j < length (accounts s)" by simp
  let ?s' = "snd (confirm s authToken transferId note rnd now now2 reference)"
  let ?debit = "doubleSub (acct_balance (accounts s ! i)) (tr_amount transfer)"
  let ?credit = "doubleAdd (acct_balance (accounts s ! j)) (tr_amount transfer)"
  let ?debited = "(accounts s)[i := (accounts s ! i)\<lparr> acct_balance := ?debit \<rparr>]"
  have acc: "accounts ?s' = ?debited[j := (?debited ! j)
                   \<lparr> acct_balance := doubleAdd (acct_balance (?debited ! j)) (tr_amount transfer) \<rparr>]"
    using assms(4)
    by (simp add: confirm_success(4) [OF assms(1,2) st assms(3) le] Let_def)
  have distinct: "i \<noteq> j \<longrightarrow>
      acct_balance (accounts ?s' ! i) = ?debit \<and> acct_balance (accounts ?s' ! j) = ?credit"
    unfolding acc using i j by (simp add: nth_list_update)
  have same: "i = j \<longrightarrow> acct_balance (accounts ?s' ! i) = doubleAdd ?debit (tr_amount transfer)"
    unfolding acc using i by (simp add: nth_list_update)
  have len: "length (accounts ?s') = length (accounts s)"
    unfolding acc by simp
  have others: "\<forall>k. k \<noteq> i \<and> k \<noteq> j \<longrightarrow> accounts ?s' ! k = accounts s ! k"
    unfolding acc by (simp add: nth_list_update)
  have whole: "\<forall>a b c. i \<noteq> j \<and> acct_balance (accounts s ! i) = of_int a
                 \<and> acct_balance (accounts s ! j) = of_int b \<and> tr_amount transfer = of_int c
                 \<and> \<bar>a - c\<bar> < 2 ^ 53 \<and> \<bar>b + c\<bar> < 2 ^ 53 \<longrightarrow>
                acct_balance (accounts ?s' ! i) = of_int (a - c)
              \<and> acct_balance (accounts ?s' ! j) = of_int (b + c)
              \<and> acct_balance (accounts ?s' ! i) + acct_balance (accounts ?s' ! j)
                  = acct_balance (accounts s ! i) + acct_balance (accounts s ! j)"
  proof (intro allI impI, elim conjE)
    fix a b c :: int
    assume ne: "i \<noteq> j"
      and a: "acct_balance (accounts s ! i) = of_int a"
      and b: "acct_balance (accounts s ! j) = of_int b"
      and c: "tr_amount transfer = of_int c"
      and ac: "\<bar>a - c\<bar> < 2 ^ 53" and bc: "\<bar>b + c\<bar> < 2 ^ 53"
    have d: "?debit = of_int (a - c)"
      using roundDouble_of_int [OF ac] by (simp add: doubleSub_def a c)
    have e: "?credit = of_int (b + c)"
      using roundDouble_of_int [OF bc] by (simp add: doubleAdd_def b c)
    from distinct ne d e a b show "acct_balance (accounts ?s' ! i) = of_int (a - c)
              \<and> acct_balance (accounts ?s' ! j) = of_int (b + c)
              \<and> acct_balance (accounts ?s' ! i) + acct_balance (accounts ?s' ! j)
                  = acct_balance (accounts s ! i) + acct_balance (accounts s ! j)"
      by simp
  qed
  from distinct same len others whole show ?thesis
    unfolding Let_def by auto
qed

text \<open>
  C2, amended, on the session: 100 moves from checking (position 0) to savings
  (position 1); both double results are exact there.
\<close>

theorem confirm_balances_witness:
  "map acct_balance (accounts verifiedState) = [428075 / 100, 7284456948550861 / 549755813888]
   \<and> acct_balance (accounts completedState ! 0) = 428075 / 100 - 100
   \<and> acct_balance (accounts completedState ! 1) = 7284456948550861 / 549755813888 + 100
   \<and> acct_balance (accounts completedState ! 0) + acct_balance (accounts completedState ! 1)
       = 428075 / 100 + 7284456948550861 / 549755813888"
proof -
  have src: "findIndex (\<lambda>acct. acct_id acct =
        tr_fromAccountId \<lparr> tr_id = ''transfer-t1'', tr_userId = ''user-1'', tr_fromAccountId = ''acct-1'',
       tr_toAccountId = ''acct-2'', tr_amount = 100, tr_status = VERIFIED,
       tr_otp = Some \<lparr> otp_code = ''550000'', otp_attempts = 0, otp_expiresAt = 302000 \<rparr>,
       tr_createdAt = 1000 \<rparr> \<and> acct_userId acct = u_id demoUser)
      (accounts verifiedState) = Some 0"
    by (simp add: accounts_verifiedState accounts_demoState demoUser_def)
  have dst: "findIndex (\<lambda>acct. acct_id acct =
        tr_toAccountId \<lparr> tr_id = ''transfer-t1'', tr_userId = ''user-1'', tr_fromAccountId = ''acct-1'',
       tr_toAccountId = ''acct-2'', tr_amount = 100, tr_status = VERIFIED,
       tr_otp = Some \<lparr> otp_code = ''550000'', otp_attempts = 0, otp_expiresAt = 302000 \<rparr>,
       tr_createdAt = 1000 \<rparr>)
      (accounts verifiedState) = Some 1"
    by (simp add: accounts_verifiedState accounts_demoState)
  have bal: "map acct_balance (accounts verifiedState)
      = [428075 / 100, 7284456948550861 / 549755813888]"
    by (simp add: accounts_verifiedState accounts_demoState)
  have exact: "(0::nat) \<noteq> 1
      \<and> doubleSub (acct_balance (accounts verifiedState ! 0)) 100
          = acct_balance (accounts verifiedState ! 0) - 100
      \<and> doubleAdd (acct_balance (accounts verifiedState ! 1)) 100
          = acct_balance (accounts verifiedState ! 1) + 100"
    by (simp add: accounts_verifiedState accounts_demoState double_eval)
  from confirm_balances [OF requireAuth_verifiedState verifiedState_transfer src dst
      confirm_verifiedState]
  have "acct_balance (accounts completedState ! 0) = acct_balance (accounts verifiedState ! 0) - 100
      \<and> acct_balance (accounts completedState ! 1) = acct_balance (accounts verifiedState ! 1) + 100
      \<and> acct_balance (accounts completedState ! 0) + acct_balance (accounts completedState ! 1)
          = acct_balance (accounts verifiedState ! 0) + acct_balance (accounts verifiedState ! 1)"
    unfolding Let_def completedState_def [symmetric] using exact by simp
  then show ?thesis
    using bal by (simp add: accounts_verifiedState accounts_demoState)
qed

text \<open>
  C7: \<^verbatim>\<open>verifyOtp\<close> never reads the status. For an existing transfer, whatever its
  status (\<^verbatim>\<open>COMPLETED\<close> included), with a challenge that is not expired and not locked
  and with the matching code, it sets the status to \<^verbatim>\<open>VERIFIED\<close> and changes nothing
  else. On the state it returns, \<^verbatim>\<open>confirm\<close> of the same transfer succeeds whenever
  the source account resolves and holds the amount: it debits, credits, appends the
  transaction record and sets \<^verbatim>\<open>COMPLETED\<close>, as on a first confirmation.
\<close>

theorem verifyOtp_ignores_status:
  assumes "requireAuth s authToken = Inr u" and "transfers s transferId = Some transfer"
    and "tr_otp transfer = Some challenge"
    and "\<not> otp_expiresAt challenge < now" and "otp_attempts challenge < 5"
    and "otp_code challenge = code"
  shows "verifyOtp s authToken transferId code now =
           (Inr VERIFIED,
            s\<lparr> transfers := (transfers s)(transferId \<mapsto> transfer\<lparr> tr_status := VERIFIED \<rparr>) \<rparr>)
         \<and> (\<forall>i. findIndex (\<lambda>acct. acct_id acct = tr_fromAccountId transfer
                                  \<and> acct_userId acct = u_id u) (accounts s) = Some i
                \<and> tr_amount transfer \<le> acct_balance (accounts s ! i) \<longrightarrow>
              (let s' = snd (confirm (snd (verifyOtp s authToken transferId code now)) authToken
                              transferId note rnd now1 now2 reference);
                   debited = (accounts s)[i := (accounts s ! i)
                     \<lparr> acct_balance := doubleSub (acct_balance (accounts s ! i)) (tr_amount transfer) \<rparr>]
               in (\<exists>rc. fst (confirm (snd (verifyOtp s authToken transferId code now)) authToken
                               transferId note rnd now1 now2 reference) = Inr (transferId, rc))
                \<and> statusOf s' transferId = Some COMPLETED
                \<and> transactions s' = transactions s @
                     [\<lparr> tx_id = makeId ''tx'' rnd, tx_accountId = acct_id (accounts s ! i),
                        tx_description = (if note = [] then ''Transfer'' else note),
                        tx_amount = - tr_amount transfer, tx_createdAt = now1 \<rparr>]
                \<and> accounts s' =
                     (case findIndex (\<lambda>acct. acct_id acct = tr_toAccountId transfer) (accounts s) of
                        None \<Rightarrow> debited
                      | Some j \<Rightarrow> debited[j := (debited ! j)
                          \<lparr> acct_balance := doubleAdd (acct_balance (debited ! j)) (tr_amount transfer) \<rparr>])))"
proof -
  let ?v = "s\<lparr> transfers := (transfers s)(transferId \<mapsto> transfer\<lparr> tr_status := VERIFIED \<rparr>) \<rparr>"
  have ver: "verifyOtp s authToken transferId code now = (Inr VERIFIED, ?v)"
    using assms by (simp add: verifyOtp_def)
  have auth: "requireAuth ?v authToken = Inr u"
    using assms(1) by (simp add: requireAuth_frame [of ?v s])
  have tr: "transfers ?v transferId = Some (transfer\<lparr> tr_status := VERIFIED \<rparr>)" by simp
  have st: "tr_status (transfer\<lparr> tr_status := VERIFIED \<rparr>) = VERIFIED" by simp
  {
    fix i
    assume src: "findIndex (\<lambda>acct. acct_id acct = tr_fromAccountId transfer
                                  \<and> acct_userId acct = u_id u) (accounts s) = Some i"
      and le: "tr_amount transfer \<le> acct_balance (accounts s ! i)"
    have src': "findIndex (\<lambda>acct. acct_id acct = tr_fromAccountId (transfer\<lparr> tr_status := VERIFIED \<rparr>)
                                  \<and> acct_userId acct = u_id u) (accounts ?v) = Some i"
      using src by simp
    have le': "tr_amount (transfer\<lparr> tr_status := VERIFIED \<rparr>) \<le> acct_balance (accounts ?v ! i)"
      using le by simp
    note cs = confirm_success [OF auth tr st src' le']
    have "(\<exists>rc. fst (confirm ?v authToken transferId note rnd now1 now2 reference) = Inr (transferId, rc))"
      by (rule cs(1))
    moreover have "statusOf (snd (confirm ?v authToken transferId note rnd now1 now2 reference))
        transferId = Some COMPLETED"
      by (simp add: statusOf_def cs(2))
    moreover have "transactions (snd (confirm ?v authToken transferId note rnd now1 now2 reference))
        = transactions s @
                     [\<lparr> tx_id = makeId ''tx'' rnd, tx_accountId = acct_id (accounts s ! i),
                        tx_description = (if note = [] then ''Transfer'' else note),
                        tx_amount = - tr_amount transfer, tx_createdAt = now1 \<rparr>]"
      by (simp add: cs(3))
    moreover have "accounts (snd (confirm ?v authToken transferId note rnd now1 now2 reference))
        = (let debited = (accounts s)[i := (accounts s ! i)
                     \<lparr> acct_balance := doubleSub (acct_balance (accounts s ! i)) (tr_amount transfer) \<rparr>]
           in case findIndex (\<lambda>acct. acct_id acct = tr_toAccountId transfer) (accounts s) of
                        None \<Rightarrow> debited
                      | Some j \<Rightarrow> debited[j := (debited ! j)
                          \<lparr> acct_balance := doubleAdd (acct_balance (debited ! j)) (tr_amount transfer) \<rparr>])"
      by (simp add: cs(4) Let_def split: option.splits)
    ultimately have "(let s' = snd (confirm ?v authToken transferId note rnd now1 now2 reference);
                   debited = (accounts s)[i := (accounts s ! i)
                     \<lparr> acct_balance := doubleSub (acct_balance (accounts s ! i)) (tr_amount transfer) \<rparr>]
               in (\<exists>rc. fst (confirm ?v authToken transferId note rnd now1 now2 reference)
                      = Inr (transferId, rc))
                \<and> statusOf s' transferId = Some COMPLETED
                \<and> transactions s' = transactions s @
                     [\<lparr> tx_id = makeId ''tx'' rnd, tx_accountId = acct_id (accounts s ! i),
                        tx_description = (if note = [] then ''Transfer'' else note),
                        tx_amount = - tr_amount transfer, tx_createdAt = now1 \<rparr>]
                \<and> accounts s' =
                     (case findIndex (\<lambda>acct. acct_id acct = tr_toAccountId transfer) (accounts s) of
                        None \<Rightarrow> debited
                      | Some j \<Rightarrow> debited[j := (debited ! j)
                          \<lparr> acct_balance := doubleAdd (acct_balance (debited ! j)) (tr_amount transfer) \<rparr>]))"
      unfolding Let_def by blast
  }
  then show ?thesis
    unfolding ver snd_conv by blast
qed

text \<open>
  C7 on the session: the completed transfer is verified again with the same code and
  confirmed again; 100 moves a second time and a fifth transaction record is appended.
\<close>

theorem verifyOtp_ignores_status_witness:
  "statusOf completedState ''transfer-t1'' = Some COMPLETED
   \<and> map acct_balance (accounts completedState)
       = [418075 / 100, 7339432529939661 / 549755813888]
   \<and> length (transactions completedState) = 4
   \<and> fst (verifyOtp completedState ''token-demo'' ''transfer-t1'' ''550000'' 5000) = Inr VERIFIED
   \<and> map acct_balance (accounts (snd (confirm
        (snd (verifyOtp completedState ''token-demo'' ''transfer-t1'' ''550000'' 5000))
        ''token-demo'' ''transfer-t1'' [] ''r3'' 6000 6001 ''REF-CCCC-DDDD'')))
       = [408075 / 100, 7394408111328461 / 549755813888]
   \<and> length (transactions (snd (confirm
        (snd (verifyOtp completedState ''token-demo'' ''transfer-t1'' ''550000'' 5000))
        ''token-demo'' ''transfer-t1'' [] ''r3'' 6000 6001 ''REF-CCCC-DDDD''))) = 5"
proof -
  have ch: "tr_otp \<lparr> tr_id = ''transfer-t1'', tr_userId = ''user-1'', tr_fromAccountId = ''acct-1'',
       tr_toAccountId = ''acct-2'', tr_amount = 100, tr_status = COMPLETED,
       tr_otp = Some \<lparr> otp_code = ''550000'', otp_attempts = 0, otp_expiresAt = 302000 \<rparr>,
       tr_createdAt = 1000 \<rparr> = Some \<lparr> otp_code = ''550000'', otp_attempts = 0, otp_expiresAt = 302000 \<rparr>"
    by simp
  have accs: "accounts completedState =
       [\<lparr> acct_id = ''acct-1'', acct_userId = ''user-1'', acct_name = ''Everyday Checking'',
          acct_number = ''1234567890'', acct_balance = 418075 / 100, acct_currency = ''USD'' \<rparr>,
        \<lparr> acct_id = ''acct-2'', acct_userId = ''user-1'', acct_name = ''Savings Vault'',
          acct_number = ''9876543210'', acct_balance = 7339432529939661 / 549755813888,
          acct_currency = ''USD'' \<rparr>]"
    by (simp add: completedState_eq)
  have txs: "length (transactions completedState) = 4"
    by (simp add: completedState_eq demoState_eq initialState_def)
  note inst = verifyOtp_ignores_status [OF requireAuth_completedState completedState_transfer ch,
      of 5000 "''550000''" "[]" "''r3''" 6000 6001 "''REF-CCCC-DDDD''"]
  have pre: "\<not> otp_expiresAt \<lparr> otp_code = ''550000'', otp_attempts = 0, otp_expiresAt = 302000 \<rparr> < 5000"
    "otp_attempts \<lparr> otp_code = ''550000'', otp_attempts = 0, otp_expiresAt = 302000 \<rparr> < 5"
    "otp_code \<lparr> otp_code = ''550000'', otp_attempts = 0, otp_expiresAt = 302000 \<rparr> = ''550000''"
    by simp_all
  note inst' = inst [OF pre]
  have ver: "fst (verifyOtp completedState ''token-demo'' ''transfer-t1'' ''550000'' 5000) = Inr VERIFIED"
    using inst' [THEN conjunct1] by simp
  have src: "findIndex (\<lambda>acct. acct_id acct = tr_fromAccountId
       \<lparr> tr_id = ''transfer-t1'', tr_userId = ''user-1'', tr_fromAccountId = ''acct-1'',
       tr_toAccountId = ''acct-2'', tr_amount = 100, tr_status = COMPLETED,
       tr_otp = Some \<lparr> otp_code = ''550000'', otp_attempts = 0, otp_expiresAt = 302000 \<rparr>,
       tr_createdAt = 1000 \<rparr> \<and> acct_userId acct = u_id demoUser) (accounts completedState) = Some 0"
    by (simp add: accs demoUser_def)
  have le: "tr_amount \<lparr> tr_id = ''transfer-t1'', tr_userId = ''user-1'', tr_fromAccountId = ''acct-1'',
       tr_toAccountId = ''acct-2'', tr_amount = 100, tr_status = COMPLETED,
       tr_otp = Some \<lparr> otp_code = ''550000'', otp_attempts = 0, otp_expiresAt = 302000 \<rparr>,
       tr_createdAt = 1000 \<rparr> \<le> acct_balance (accounts completedState ! 0)"
    by (simp add: accs)
  from inst' [THEN conjunct2, rule_format, of 0, OF conjI [OF src le]]
  have "map acct_balance (accounts (snd (confirm
        (snd (verifyOtp completedState ''token-demo'' ''transfer-t1'' ''550000'' 5000))
        ''token-demo'' ''transfer-t1'' [] ''r3'' 6000 6001 ''REF-CCCC-DDDD'')))
       = [408075 / 100, 7394408111328461 / 549755813888]
   \<and> length (transactions (snd (confirm
        (snd (verifyOtp completedState ''token-demo'' ''transfer-t1'' ''550000'' 5000))
        ''token-demo'' ''transfer-t1'' [] ''r3'' 6000 6001 ''REF-CCCC-DDDD''))) = 5"
    unfolding Let_def by (simp add: accs txs double_eval)
  then show ?thesis
    using ver txs by (simp add: accs statusOf_def completedState_transfer)
qed

text \<open>
  C1: \<^verbatim>\<open>confirm\<close> succeeds only on a transfer whose status is \<^verbatim>\<open>VERIFIED\<close> at the
  call, and then leaves it \<^verbatim>\<open>COMPLETED\<close>; for the authenticated caller and an existing
  transfer with any other status it fails with \<^verbatim>\<open>OTP_REQUIRED\<close> and changes nothing.
  Over all requests of the router: a transfer becomes \<^verbatim>\<open>COMPLETED\<close> only by a
  \<^verbatim>\<open>confirm\<close> of that transfer from the status \<^verbatim>\<open>VERIFIED\<close>, and a transfer becomes
  \<^verbatim>\<open>VERIFIED\<close> only by a successful \<^verbatim>\<open>verifyOtp\<close> of that transfer.
\<close>

theorem confirm_requires_verified:
  "(\<forall>result. fst (confirm s authToken transferId note rnd now now2 reference) = Inr result
       \<longrightarrow> statusOf s transferId = Some VERIFIED
           \<and> statusOf (snd (confirm s authToken transferId note rnd now now2 reference)) transferId
               = Some COMPLETED)
   \<and> (\<forall>u transfer. requireAuth s authToken = Inr u \<and> transfers s transferId = Some transfer
         \<and> tr_status transfer \<noteq> VERIFIED
       \<longrightarrow> confirm s authToken transferId note rnd now now2 reference = (Inl OTP_REQUIRED, s))
   \<and> (\<forall>a req t. statusOf (snd (routeMockRequest s a req)) t = Some COMPLETED
         \<and> statusOf s t \<noteq> Some COMPLETED
       \<longrightarrow> statusOf s t = Some VERIFIED
           \<and> (\<exists>note rnd now now2 reference. req = Confirm t note rnd now now2 reference))
   \<and> (\<forall>a req t. statusOf (snd (routeMockRequest s a req)) t = Some VERIFIED
         \<and> statusOf s t \<noteq> Some VERIFIED
       \<longrightarrow> (\<exists>code now. req = VerifyOtp t code now)
           \<and> fst (routeMockRequest s a req) = Inr (RStatus VERIFIED))"
proof -
  have "\<forall>result. fst (confirm s authToken transferId note rnd now now2 reference) = Inr result
       \<longrightarrow> statusOf s transferId = Some VERIFIED
           \<and> statusOf (snd (confirm s authToken transferId note rnd now now2 reference)) transferId
               = Some COMPLETED"
  proof (intro allI impI)
    fix result
    assume ok: "fst (confirm s authToken transferId note rnd now now2 reference) = Inr result"
    from confirm_InrD [OF ok] obtain u transfer i where
      h: "requireAuth s authToken = Inr u" "transfers s transferId = Some transfer"
        "tr_status transfer = VERIFIED"
        "findIndex (\<lambda>acct. acct_id acct = tr_fromAccountId transfer \<and> acct_userId acct = u_id u)
                (accounts s) = Some i"
        "tr_amount transfer \<le> acct_balance (accounts s ! i)"
      by blast
    show "statusOf s transferId = Some VERIFIED
           \<and> statusOf (snd (confirm s authToken transferId note rnd now now2 reference)) transferId
               = Some COMPLETED"
      using h(2,3) by (simp add: statusOf_def confirm_success(2) [OF h])
  qed
  moreover have "\<forall>u transfer. requireAuth s authToken = Inr u \<and> transfers s transferId = Some transfer
         \<and> tr_status transfer \<noteq> VERIFIED
       \<longrightarrow> confirm s authToken transferId note rnd now now2 reference = (Inl OTP_REQUIRED, s)"
    by (simp add: confirm_def)
  ultimately show ?thesis
    using route_completed route_verified by blast
qed

text \<open>
  C1 on the session: the pending transfer is refused with \<^verbatim>\<open>OTP_REQUIRED\<close>; it
  becomes \<^verbatim>\<open>VERIFIED\<close> by a successful \<^verbatim>\<open>verifyOtp\<close>; the confirmed one was
  \<^verbatim>\<open>VERIFIED\<close> before and is \<^verbatim>\<open>COMPLETED\<close> after.
\<close>

theorem confirm_requires_verified_witness:
  "statusOf sentState ''transfer-t1'' = Some PENDING_OTP
   \<and> confirm sentState ''token-demo'' ''transfer-t1'' [] ''r1'' 4000 4001 ''REF-AAAA-BBBB''
       = (Inl OTP_REQUIRED, sentState)
   \<and> fst (routeMockRequest sentState ''token-demo'' (VerifyOtp ''transfer-t1'' ''550000'' 3000))
       = Inr (RStatus VERIFIED)
   \<and> statusOf verifiedState ''transfer-t1'' = Some VERIFIED
   \<and> statusOf completedState ''transfer-t1'' = Some COMPLETED"
proof -
  have tr: "transfers sentState ''transfer-t1'' = Some
     \<lparr> tr_id = ''transfer-t1'', tr_userId = ''user-1'', tr_fromAccountId = ''acct-1'',
       tr_toAccountId = ''acct-2'', tr_amount = 100, tr_status = PENDING_OTP,
       tr_otp = Some \<lparr> otp_code = ''550000'', otp_attempts = 0, otp_expiresAt = 302000 \<rparr>,
       tr_createdAt = 1000 \<rparr>"
    by (simp add: sentState_eq)
  have pending: "statusOf sentState ''transfer-t1'' = Some PENDING_OTP"
    by (simp add: statusOf_def tr)
  have refused: "confirm sentState ''token-demo'' ''transfer-t1'' [] ''r1'' 4000 4001 ''REF-AAAA-BBBB''
       = (Inl OTP_REQUIRED, sentState)"
    using confirm_requires_verified [of sentState "''token-demo''" "''transfer-t1''" "[]"
        "''r1''" 4000 4001 "''REF-AAAA-BBBB''", THEN conjunct2, THEN conjunct1, rule_format,
        OF conjI [OF requireAuth_sentState conjI [OF tr]]]
    by simp
  have confirmed: "statusOf verifiedState ''transfer-t1'' = Some VERIFIED
     \<and> statusOf completedState ''transfer-t1'' = Some COMPLETED"
    using confirm_requires_verified [of verifiedState "''token-demo''" "''transfer-t1''" "[]"
        "''r1''" 4000 4001 "''REF-AAAA-BBBB''", THEN conjunct1, rule_format,
        OF confirm_verifiedState]
    unfolding completedState_def [symmetric] .
  have step: "snd (routeMockRequest sentState ''token-demo'' (VerifyOtp ''transfer-t1'' ''550000'' 3000))
      = verifiedState"
    by (simp add: verifiedState_def)
  have entered: "statusOf (snd (routeMockRequest sentState ''token-demo''
        (VerifyOtp ''transfer-t1'' ''550000'' 3000))) ''transfer-t1'' = Some VERIFIED
      \<and> statusOf sentState ''transfer-t1'' \<noteq> Some VERIFIED"
    unfolding step using confirmed pending by simp
  have verified: "fst (routeMockRequest sentState ''token-demo''
        (VerifyOtp ''transfer-t1'' ''550000'' 3000)) = Inr (RStatus VERIFIED)"
    using confirm_requires_verified [of sentState "''token-demo''" "''transfer-t1''" "[]"
        "''r1''" 4000 4001 "''REF-AAAA-BBBB''", THEN conjunct2, THEN conjunct2, THEN conjunct2,
        rule_format, OF entered]
    by (rule conjunct2)
  from pending refused verified confirmed show ?thesis by blast
qed

text \<open>
  C6 at the input where the code departs from it: Eve owns only \<open>acct-eve\<close>, yet with
  the filter \<open>accountId = acct-1\<close> \<^verbatim>\<open>mockTransactions\<close> returns the two transactions of the
  demo customer's checking account. The branch of the filter taken when \<open>accountId\<close> is
  supplied compares account ids only and never consults \<^verbatim>\<open>allowedAccountIds\<close>; without
  the filter Eve sees nothing (\<open>mockTransactions_own_accounts\<close>), and the result is
  sorted by descending time stamp in both branches (\<open>mockTransactions_sorted\<close>).
\<close>

theorem mockTransactions_foreign_account:
  "map_sum id (map (\<lambda>a. (acct_id a, acct_userId a))) (mockAccounts eveState ''token-eve'')
     = Inr [(''acct-eve'', ''user-eve'')]
   \<and> map (\<lambda>a. (acct_id a, acct_userId a)) (accounts eveState)
       = [(''acct-1'', ''user-1''), (''acct-2'', ''user-1''), (''acct-eve'', ''user-eve'')]
   \<and> map_sum id (map (\<lambda>tx. (tx_id tx, tx_accountId tx, tx_description tx, tx_amount tx)))
         (mockTransactions eveState ''token-eve'' (Some ''acct-1''))
       = Inr [(''tx-1'', ''acct-1'', ''Coffee shop'', - (875 / 100)),
              (''tx-2'', ''acct-1'', ''Direct deposit'', 1800)]
   \<and> mockTransactions eveState ''token-eve'' None = Inr []"
  by (simp add: mockTransactions_def mockAccounts_def requireAuth_def eveState_eq initialState_def)

end
